theory Spec2Isabelle
  imports Main "HOL-Library.Sublist"
begin

section \<open>The notebook ``Advanced Topic Modeling: Part 1''\<close>

text \<open>
  The repository is one Jupyter notebook, \<^verbatim>\<open>notebooks/2-advanced, part 1.ipynb\<close>, of
  twelve code cells. Every cell is straight-line Python: calls into the packages
  \<^verbatim>\<open>cophi\<close>, \<^verbatim>\<open>dariah\<close> (and, through the objects they return, \<^verbatim>\<open>pandas\<close>), glued by
  list concatenation, slicing, \<^verbatim>\<open>len\<close>, one f-string and one \<^verbatim>\<open>print\<close>.

  The packages are not part of the repository, so the embedding takes them as a
  parameter: a record of operations. An operation runs in a world of type \<open>'w\<close> (the file
  system, the processes, the objects the packages keep), may change it, and either
  returns a value or raises an exception of type \<open>'e\<close>.
\<close>

subsection \<open>Operations that may raise and may change the world\<close>

type_synonym ('w, 'e, 'a) op = "'w \<Rightarrow> ('e + 'a) \<times> 'w"

definition return :: "'a \<Rightarrow> ('w, 'e, 'a) op" where
  "return a = (\<lambda>w. (Inr a, w))"

definition raise :: "'e \<Rightarrow> ('w, 'e, 'a) op" where
  "raise e = (\<lambda>w. (Inl e, w))"

text \<open>
  Sequencing of two Python statements: the second runs in the world the first left, and
  only if the first did not raise. The notebook has no \<^verbatim>\<open>try\<close>, so this is the only way
  two steps are ever combined.
\<close>

definition bind :: "('w, 'e, 'a) op \<Rightarrow> ('a \<Rightarrow> ('w, 'e, 'b) op) \<Rightarrow> ('w, 'e, 'b) op" where
  "bind m f = (\<lambda>w. case m w of (Inl e, w') \<Rightarrow> (Inl e, w') | (Inr a, w') \<Rightarrow> f a w')"

subsection \<open>The packages the notebook calls\<close>

datatype path = Path "string list"

datatype dtype = Dtype_float | Dtype_int

text \<open>
  One field for each distinct call or attribute access in the code cells.
  \<open>'c\<close> is a \<^verbatim>\<open>cophi\<close> corpus, \<open>'f\<close> a \<^verbatim>\<open>pandas\<close> data frame, \<open>'m\<close> a \<^verbatim>\<open>dariah\<close> model,
  \<open>'v\<close> its visualization, \<open>'p\<close> the plot \<^verbatim>\<open>topic_document\<close> returns.
\<close>

record ('w, 'e, 'c, 'f, 'm, 'v, 'p) library =
  import_module :: "string \<Rightarrow> ('w, 'e, unit) op"
  cophi_corpus :: "path \<Rightarrow> bool \<Rightarrow> string \<Rightarrow> bool \<Rightarrow> ('w, 'e, 'c) op"
  corpus_mfw :: "'c \<Rightarrow> int \<Rightarrow> ('w, 'e, string list) op"
  corpus_hapax :: "'c \<Rightarrow> ('w, 'e, string list) op"
  corpus_dtm :: "'c \<Rightarrow> ('w, 'e, 'f) op"
  corpus_drop :: "'c \<Rightarrow> 'f \<Rightarrow> string list \<Rightarrow> ('w, 'e, 'f) op"
  frame_fillna :: "'f \<Rightarrow> int \<Rightarrow> ('w, 'e, 'f) op"
  frame_astype :: "'f \<Rightarrow> dtype \<Rightarrow> ('w, 'e, 'f) op"
  frame_iloc_columns :: "'f \<Rightarrow> int \<Rightarrow> ('w, 'e, 'f) op"
  dariah_core_LDA :: "int \<Rightarrow> int \<Rightarrow> string \<Rightarrow> ('w, 'e, 'm) op"
  model_fit :: "'m \<Rightarrow> 'f \<Rightarrow> ('w, 'e, unit) op"
  model_topics :: "'m \<Rightarrow> ('w, 'e, 'f) op"
  dariah_core_Vis :: "'m \<Rightarrow> ('w, 'e, 'v) op"
  matplotlib_inline :: "('w, 'e, unit) op"
  vis_topic_document :: "'v \<Rightarrow> ('w, 'e, 'p) op"

subsection \<open>The glue of the notebook's own\<close>

text \<open>Python's \<^verbatim>\<open>str\<close> of a non-negative integer, as the f-string of cell 6 formats it.\<close>

definition digit_char :: "nat \<Rightarrow> char" where
  "digit_char d = ''0123456789'' ! d"

function str_nat :: "nat \<Rightarrow> string" where
  "str_nat n = (if n < 10 then [digit_char n] else str_nat (n div 10) @ [digit_char (n mod 10)])"
  by pat_completeness auto
termination
  by (relation "measure (\<lambda>n. n)") auto

declare str_nat.simps [simp del]

text \<open>
  The reading of a decimal numeral, as Python's \<^verbatim>\<open>int\<close> reads it: against it the numeral
  \<open>str_nat\<close> writes is checked. It takes the digits by their character codes and does not
  use \<open>digit_char\<close>.
\<close>

definition is_digit :: "char \<Rightarrow> bool" where
  "is_digit c \<longleftrightarrow> 48 \<le> (of_char c :: nat) \<and> (of_char c :: nat) \<le> 57"

definition digit_value :: "char \<Rightarrow> nat" where
  "digit_value c = of_char c - 48"

definition decimal_value :: "string \<Rightarrow> nat" where
  "decimal_value s = foldl (\<lambda>acc c. 10 * acc + digit_value c) 0 s"

text \<open>What a code cell shows below itself.\<close>

datatype ('f, 'm, 'v, 'p) display =
    Out_list "string list"
  | Out_frame 'f
  | Out_model 'm
  | Out_vis 'v
  | Out_plot 'p
  | Out_stdout string

subsection \<open>The code cells\<close>

text \<open>Cell 1: \<^verbatim>\<open>from pathlib import Path\<close>, \<^verbatim>\<open>import dariah\<close>, \<^verbatim>\<open>import cophi\<close>.\<close>

definition cell_1 :: "('w, 'e, 'c, 'f, 'm, 'v, 'p) library \<Rightarrow> ('w, 'e, unit) op" where
  "cell_1 L =
     bind (import_module L ''pathlib'') (\<lambda>_.
     bind (import_module L ''dariah'') (\<lambda>_.
     import_module L ''cophi''))"

text \<open>Cell 2: \<^verbatim>\<open>directory = Path("data", "british-fiction-corpus")\<close>.\<close>

definition directory :: path where
  "directory = Path [''data'', ''british-fiction-corpus'']"

text \<open>
  Cell 3: \<^verbatim>\<open>corpus = cophi.corpus(directory, lowercase=True, token_pattern=r"...", metadata=False)\<close>.
\<close>

definition backslash :: char where
  "backslash = CHR 0x5C"

definition token_pattern :: string where
  "token_pattern =
     backslash # ''p{Letter}+'' @ backslash # ''p{Connector_Punctuation}?'' @ backslash # ''p{Letter}+''"

definition cell_3 :: "('w, 'e, 'c, 'f, 'm, 'v, 'p) library \<Rightarrow> ('w, 'e, 'c) op" where
  "cell_3 L = cophi_corpus L directory True token_pattern False"

text \<open>Cell 4: \<^verbatim>\<open>mfw = corpus.mfw(50)\<close>, then \<^verbatim>\<open>mfw[:10]\<close> is shown.\<close>

definition cell_4 ::
  "('w, 'e, 'c, 'f, 'm, 'v, 'p) library \<Rightarrow> 'c \<Rightarrow> ('w, 'e, string list \<times> ('f, 'm, 'v, 'p) display) op" where
  "cell_4 L corpus =
     bind (corpus_mfw L corpus 50) (\<lambda>mfw.
     return (mfw, Out_list (take 10 mfw)))"

text \<open>Cell 5: \<^verbatim>\<open>corpus.hapax[:10]\<close> is shown.\<close>

definition cell_5 ::
  "('w, 'e, 'c, 'f, 'm, 'v, 'p) library \<Rightarrow> 'c \<Rightarrow> ('w, 'e, ('f, 'm, 'v, 'p) display) op" where
  "cell_5 L corpus =
     bind (corpus_hapax L corpus) (\<lambda>hapax.
     return (Out_list (take 10 hapax)))"

text \<open>
  Cell 6: \<^verbatim>\<open>features = mfw + corpus.hapax\<close>, then
  \<^verbatim>\<open>print(f"{len(features)} types will be removed from the corpus.")\<close>.
\<close>

definition removal_message :: "string list \<Rightarrow> string" where
  "removal_message features =
     str_nat (length features) @ '' types will be removed from the corpus.'' @ [CHR 0x0A]"

definition cell_6 ::
  "('w, 'e, 'c, 'f, 'm, 'v, 'p) library \<Rightarrow> 'c \<Rightarrow> string list
     \<Rightarrow> ('w, 'e, string list \<times> ('f, 'm, 'v, 'p) display) op" where
  "cell_6 L corpus mfw =
     bind (corpus_hapax L corpus) (\<lambda>hapax.
     let features = mfw @ hapax in
     return (features, Out_stdout (removal_message features)))"

text \<open>
  Cell 7: \<^verbatim>\<open>dtm = corpus.drop(corpus.dtm, features).fillna(0).astype(int)\<close>, then
  \<^verbatim>\<open>dtm.iloc[:, :5]\<close> is shown.
\<close>

definition cell_7 ::
  "('w, 'e, 'c, 'f, 'm, 'v, 'p) library \<Rightarrow> 'c \<Rightarrow> string list
     \<Rightarrow> ('w, 'e, 'f \<times> ('f, 'm, 'v, 'p) display) op" where
  "cell_7 L corpus features =
     bind (corpus_dtm L corpus) (\<lambda>full.
     bind (corpus_drop L corpus full features) (\<lambda>dropped.
     bind (frame_fillna L dropped 0) (\<lambda>filled.
     bind (frame_astype L filled Dtype_int) (\<lambda>dtm.
     bind (frame_iloc_columns L dtm 5) (\<lambda>shown.
     return (dtm, Out_frame shown))))))"

text \<open>
  Cell 8: \<^verbatim>\<open>model = dariah.core.LDA(num_topics=10, num_iterations=1000, mallet="mallet-2.0.8/bin/mallet")\<close>,
  then \<^verbatim>\<open>model\<close> is shown.
\<close>

definition cell_8 ::
  "('w, 'e, 'c, 'f, 'm, 'v, 'p) library \<Rightarrow> ('w, 'e, 'm \<times> ('f, 'm, 'v, 'p) display) op" where
  "cell_8 L =
     bind (dariah_core_LDA L 10 1000 ''mallet-2.0.8/bin/mallet'') (\<lambda>model.
     return (model, Out_model model))"

text \<open>Cell 9: \<^verbatim>\<open>model.fit(dtm)\<close>.\<close>

definition cell_9 :: "('w, 'e, 'c, 'f, 'm, 'v, 'p) library \<Rightarrow> 'm \<Rightarrow> 'f \<Rightarrow> ('w, 'e, unit) op" where
  "cell_9 L model dtm = model_fit L model dtm"

text \<open>Cell 10: \<^verbatim>\<open>model.topics.iloc[:, :5]\<close> is shown.\<close>

definition cell_10 ::
  "('w, 'e, 'c, 'f, 'm, 'v, 'p) library \<Rightarrow> 'm \<Rightarrow> ('w, 'e, ('f, 'm, 'v, 'p) display) op" where
  "cell_10 L model =
     bind (model_topics L model) (\<lambda>topics.
     bind (frame_iloc_columns L topics 5) (\<lambda>shown.
     return (Out_frame shown)))"

text \<open>Cell 11: \<^verbatim>\<open>vis = dariah.core.Vis(model)\<close>, then \<^verbatim>\<open>vis\<close> is shown.\<close>

definition cell_11 ::
  "('w, 'e, 'c, 'f, 'm, 'v, 'p) library \<Rightarrow> 'm \<Rightarrow> ('w, 'e, 'v \<times> ('f, 'm, 'v, 'p) display) op" where
  "cell_11 L model =
     bind (dariah_core_Vis L model) (\<lambda>vis.
     return (vis, Out_vis vis))"

text \<open>Cell 12: \<^verbatim>\<open>%matplotlib inline\<close>, then \<^verbatim>\<open>vis.topic_document()\<close> is shown.\<close>

definition cell_12 ::
  "('w, 'e, 'c, 'f, 'm, 'v, 'p) library \<Rightarrow> 'v \<Rightarrow> ('w, 'e, ('f, 'm, 'v, 'p) display) op" where
  "cell_12 L vis =
     bind (matplotlib_inline L) (\<lambda>_.
     bind (vis_topic_document L vis) (\<lambda>plot.
     return (Out_plot plot)))"

subsection \<open>The notebook, run from the first cell to the last\<close>

text \<open>The variables the kernel holds after the last cell, and what the cells have shown.\<close>

record ('c, 'f, 'm, 'v, 'p) namespace =
  var_corpus :: 'c
  var_mfw :: "string list"
  var_features :: "string list"
  var_dtm :: 'f
  var_model :: 'm
  var_vis :: 'v
  outputs :: "('f, 'm, 'v, 'p) display list"

text \<open>
  The three parts follow the notebook's headings: ``Preprocessing a corpus'' (cells 1 to 7),
  ``Training a model'' (cells 8 to 10), ``Visualizing a model'' (cells 11 and 12).
\<close>

definition preprocessing ::
  "('w, 'e, 'c, 'f, 'm, 'v, 'p) library
     \<Rightarrow> ('w, 'e, 'c \<times> string list \<times> string list \<times> 'f \<times> ('f, 'm, 'v, 'p) display list) op" where
  "preprocessing L =
     bind (cell_1 L) (\<lambda>_.
     bind (cell_3 L) (\<lambda>corpus.
     bind (cell_4 L corpus) (\<lambda>(mfw, out4).
     bind (cell_5 L corpus) (\<lambda>out5.
     bind (cell_6 L corpus mfw) (\<lambda>(features, out6).
     bind (cell_7 L corpus features) (\<lambda>(dtm, out7).
     return (corpus, mfw, features, dtm, [out4, out5, out6, out7])))))))"

definition training ::
  "('w, 'e, 'c, 'f, 'm, 'v, 'p) library \<Rightarrow> 'f \<Rightarrow> ('w, 'e, 'm \<times> ('f, 'm, 'v, 'p) display list) op" where
  "training L dtm =
     bind (cell_8 L) (\<lambda>(model, out8).
     bind (cell_9 L model dtm) (\<lambda>_.
     bind (cell_10 L model) (\<lambda>out10.
     return (model, [out8, out10]))))"

definition visualizing ::
  "('w, 'e, 'c, 'f, 'm, 'v, 'p) library \<Rightarrow> 'm \<Rightarrow> ('w, 'e, 'v \<times> ('f, 'm, 'v, 'p) display list) op" where
  "visualizing L model =
     bind (cell_11 L model) (\<lambda>(vis, out11).
     bind (cell_12 L vis) (\<lambda>out12.
     return (vis, [out11, out12])))"

definition run ::
  "('w, 'e, 'c, 'f, 'm, 'v, 'p) library \<Rightarrow> ('w, 'e, ('c, 'f, 'm, 'v, 'p) namespace) op" where
  "run L =
     bind (preprocessing L) (\<lambda>(corpus, mfw, features, dtm, outs1).
     bind (training L dtm) (\<lambda>(model, outs2).
     bind (visualizing L model) (\<lambda>(vis, outs3).
     return \<lparr>var_corpus = corpus, var_mfw = mfw, var_features = features, var_dtm = dtm,
              var_model = model, var_vis = vis, outputs = outs1 @ outs2 @ outs3\<rparr>)))"

section \<open>Observing a run\<close>

subsection \<open>The log of library calls\<close>

text \<open>
  To speak about which calls a run makes, in which order and with which arguments, every
  operation of a library is wrapped so that it also writes one entry into a log: the call
  with the literal arguments the notebook wrote, and the exception if the call raised one.
  The notebook itself is not changed: it is run on the wrapped library.
\<close>

datatype event =
    Ev_import string
  | Ev_cophi_corpus path bool string bool
  | Ev_mfw int
  | Ev_hapax
  | Ev_dtm
  | Ev_drop
  | Ev_fillna int
  | Ev_astype dtype
  | Ev_iloc_columns int
  | Ev_LDA int int string
  | Ev_fit
  | Ev_topics
  | Ev_Vis
  | Ev_matplotlib_inline
  | Ev_topic_document

type_synonym 'e log = "(event \<times> 'e option) list"

definition raised :: "'e + 'a \<Rightarrow> 'e option" where
  "raised r = (case r of Inl e \<Rightarrow> Some e | Inr _ \<Rightarrow> None)"

definition logged_op :: "event \<Rightarrow> ('w, 'e, 'a) op \<Rightarrow> ('w \<times> 'e log, 'e, 'a) op" where
  "logged_op ev f = (\<lambda>(w, lg). case f w of (r, w') \<Rightarrow> (r, (w', lg @ [(ev, raised r)])))"

definition logged ::
  "('w, 'e, 'c, 'f, 'm, 'v, 'p) library \<Rightarrow> ('w \<times> 'e log, 'e, 'c, 'f, 'm, 'v, 'p) library" where
  "logged L =
     \<lparr>import_module = (\<lambda>name. logged_op (Ev_import name) (import_module L name)),
      cophi_corpus = (\<lambda>dir lc tp md. logged_op (Ev_cophi_corpus dir lc tp md) (cophi_corpus L dir lc tp md)),
      corpus_mfw = (\<lambda>c n. logged_op (Ev_mfw n) (corpus_mfw L c n)),
      corpus_hapax = (\<lambda>c. logged_op Ev_hapax (corpus_hapax L c)),
      corpus_dtm = (\<lambda>c. logged_op Ev_dtm (corpus_dtm L c)),
      corpus_drop = (\<lambda>c d fs. logged_op Ev_drop (corpus_drop L c d fs)),
      frame_fillna = (\<lambda>d i. logged_op (Ev_fillna i) (frame_fillna L d i)),
      frame_astype = (\<lambda>d t. logged_op (Ev_astype t) (frame_astype L d t)),
      frame_iloc_columns = (\<lambda>d n. logged_op (Ev_iloc_columns n) (frame_iloc_columns L d n)),
      dariah_core_LDA = (\<lambda>k n exe. logged_op (Ev_LDA k n exe) (dariah_core_LDA L k n exe)),
      model_fit = (\<lambda>mo d. logged_op Ev_fit (model_fit L mo d)),
      model_topics = (\<lambda>mo. logged_op Ev_topics (model_topics L mo)),
      dariah_core_Vis = (\<lambda>mo. logged_op Ev_Vis (dariah_core_Vis L mo)),
      matplotlib_inline = logged_op Ev_matplotlib_inline (matplotlib_inline L),
      vis_topic_document = (\<lambda>v. logged_op Ev_topic_document (vis_topic_document L v))\<rparr>"

text \<open>The calls of the three parts of the notebook, in the order of the source text.\<close>

definition preprocessing_events :: "event list" where
  "preprocessing_events =
     [Ev_import ''pathlib'', Ev_import ''dariah'', Ev_import ''cophi'',
      Ev_cophi_corpus directory True token_pattern False,
      Ev_mfw 50, Ev_hapax, Ev_hapax,
      Ev_dtm, Ev_drop, Ev_fillna 0, Ev_astype Dtype_int, Ev_iloc_columns 5]"

definition training_events :: "event list" where
  "training_events =
     [Ev_LDA 10 1000 ''mallet-2.0.8/bin/mallet'', Ev_fit, Ev_topics, Ev_iloc_columns 5]"

definition visualizing_events :: "event list" where
  "visualizing_events = [Ev_Vis, Ev_matplotlib_inline, Ev_topic_document]"

definition stage_events :: "event list" where
  "stage_events = preprocessing_events @ training_events @ visualizing_events"

definition ok :: "event list \<Rightarrow> 'e log" where
  "ok evs = map (\<lambda>ev. (ev, None)) evs"

text \<open>
  What a run that follows the script \<open>evs\<close> adds to the log: all of it when the run returns,
  and when it raises \<open>e\<close>, the calls up to some position \<open>k\<close>, of which only the last raised.
\<close>

definition entries_of :: "'e + 'a \<Rightarrow> event list \<Rightarrow> 'e log \<Rightarrow> bool" where
  "entries_of r evs new =
     (case r of
        Inr _ \<Rightarrow> new = ok evs
      | Inl e \<Rightarrow> (\<exists>k < length evs. new = ok (take k evs) @ [(evs ! k, Some e)]))"

text \<open>
  \<open>follows f g evs\<close>: \<open>f\<close>, on the wrapped library, does what \<open>g\<close> does on the library itself,
  and logs the script \<open>evs\<close>.
\<close>

definition follows :: "('w \<times> 'e log, 'e, 'a) op \<Rightarrow> ('w, 'e, 'a) op \<Rightarrow> event list \<Rightarrow> bool" where
  "follows f g evs \<longleftrightarrow>
     (\<forall>w lg r w' lg'. f (w, lg) = (r, (w', lg')) \<longrightarrow>
        g w = (r, w') \<and> (\<exists>new. lg' = lg @ new \<and> entries_of r evs new))"

subsection \<open>The worlds a run goes through\<close>

text \<open>
  A second wrapper records, for every call, the world in which it started and the world it
  left. Again the notebook is not changed.
\<close>

type_synonym 'w trace = "(event \<times> 'w \<times> 'w) list"

definition traced_op :: "event \<Rightarrow> ('w, 'e, 'a) op \<Rightarrow> ('w \<times> 'w trace, 'e, 'a) op" where
  "traced_op ev f = (\<lambda>(w, tr). case f w of (r, w') \<Rightarrow> (r, (w', tr @ [(ev, w, w')])))"

definition traced ::
  "('w, 'e, 'c, 'f, 'm, 'v, 'p) library \<Rightarrow> ('w \<times> 'w trace, 'e, 'c, 'f, 'm, 'v, 'p) library" where
  "traced L =
     \<lparr>import_module = (\<lambda>name. traced_op (Ev_import name) (import_module L name)),
      cophi_corpus = (\<lambda>dir lc tp md. traced_op (Ev_cophi_corpus dir lc tp md) (cophi_corpus L dir lc tp md)),
      corpus_mfw = (\<lambda>c n. traced_op (Ev_mfw n) (corpus_mfw L c n)),
      corpus_hapax = (\<lambda>c. traced_op Ev_hapax (corpus_hapax L c)),
      corpus_dtm = (\<lambda>c. traced_op Ev_dtm (corpus_dtm L c)),
      corpus_drop = (\<lambda>c d fs. traced_op Ev_drop (corpus_drop L c d fs)),
      frame_fillna = (\<lambda>d i. traced_op (Ev_fillna i) (frame_fillna L d i)),
      frame_astype = (\<lambda>d t. traced_op (Ev_astype t) (frame_astype L d t)),
      frame_iloc_columns = (\<lambda>d n. traced_op (Ev_iloc_columns n) (frame_iloc_columns L d n)),
      dariah_core_LDA = (\<lambda>k n exe. traced_op (Ev_LDA k n exe) (dariah_core_LDA L k n exe)),
      model_fit = (\<lambda>mo d. traced_op Ev_fit (model_fit L mo d)),
      model_topics = (\<lambda>mo. traced_op Ev_topics (model_topics L mo)),
      dariah_core_Vis = (\<lambda>mo. traced_op Ev_Vis (dariah_core_Vis L mo)),
      matplotlib_inline = traced_op Ev_matplotlib_inline (matplotlib_inline L),
      vis_topic_document = (\<lambda>v. traced_op Ev_topic_document (vis_topic_document L v))\<rparr>"

text \<open>
  \<open>linked w tr w'\<close>: the trace leads from \<open>w\<close> to \<open>w'\<close> without a gap: the first call starts in
  \<open>w\<close>, every other call starts in the world the call before it left, and \<open>w'\<close> is the world
  the last call left (\<open>w\<close> itself when there is no call).
\<close>

fun linked :: "'w \<Rightarrow> 'w trace \<Rightarrow> 'w \<Rightarrow> bool" where
  "linked w [] w' \<longleftrightarrow> w' = w"
| "linked w ((ev, b, a) # rest) w' \<longleftrightarrow> b = w \<and> linked a rest w'"

text \<open>The calls into \<^verbatim>\<open>dariah\<close>.\<close>

fun is_dariah :: "event \<Rightarrow> bool" where
  "is_dariah (Ev_LDA _ _ _) = True"
| "is_dariah Ev_fit = True"
| "is_dariah Ev_topics = True"
| "is_dariah Ev_Vis = True"
| "is_dariah Ev_topic_document = True"
| "is_dariah _ = False"

text \<open>
  \<open>genuine L (ev, b, a)\<close>: the step from \<open>b\<close> to \<open>a\<close> is what the operation of \<open>L\<close> that the
  event names does to the world \<open>b\<close>, with the literal arguments of the event.
\<close>

fun genuine :: "('w, 'e, 'c, 'f, 'm, 'v, 'p) library \<Rightarrow> event \<times> 'w \<times> 'w \<Rightarrow> bool" where
  "genuine L (Ev_import name, b, a) \<longleftrightarrow> a = snd (import_module L name b)"
| "genuine L (Ev_cophi_corpus dir lc tp md, b, a) \<longleftrightarrow> a = snd (cophi_corpus L dir lc tp md b)"
| "genuine L (Ev_mfw n, b, a) \<longleftrightarrow> (\<exists>c. a = snd (corpus_mfw L c n b))"
| "genuine L (Ev_hapax, b, a) \<longleftrightarrow> (\<exists>c. a = snd (corpus_hapax L c b))"
| "genuine L (Ev_dtm, b, a) \<longleftrightarrow> (\<exists>c. a = snd (corpus_dtm L c b))"
| "genuine L (Ev_drop, b, a) \<longleftrightarrow> (\<exists>c d fs. a = snd (corpus_drop L c d fs b))"
| "genuine L (Ev_fillna i, b, a) \<longleftrightarrow> (\<exists>d. a = snd (frame_fillna L d i b))"
| "genuine L (Ev_astype t, b, a) \<longleftrightarrow> (\<exists>d. a = snd (frame_astype L d t b))"
| "genuine L (Ev_iloc_columns n, b, a) \<longleftrightarrow> (\<exists>d. a = snd (frame_iloc_columns L d n b))"
| "genuine L (Ev_LDA k n exe, b, a) \<longleftrightarrow> a = snd (dariah_core_LDA L k n exe b)"
| "genuine L (Ev_fit, b, a) \<longleftrightarrow> (\<exists>mo d. a = snd (model_fit L mo d b))"
| "genuine L (Ev_topics, b, a) \<longleftrightarrow> (\<exists>mo. a = snd (model_topics L mo b))"
| "genuine L (Ev_Vis, b, a) \<longleftrightarrow> (\<exists>mo. a = snd (dariah_core_Vis L mo b))"
| "genuine L (Ev_matplotlib_inline, b, a) \<longleftrightarrow> a = snd (matplotlib_inline L b)"
| "genuine L (Ev_topic_document, b, a) \<longleftrightarrow> (\<exists>v. a = snd (vis_topic_document L v b))"

text \<open>The events of a run against the script: all of it when the run returns, an initial part else.\<close>

definition script_of :: "'e + 'a \<Rightarrow> event list \<Rightarrow> event list \<Rightarrow> bool" where
  "script_of r evs es = (case r of Inr _ \<Rightarrow> es = evs | Inl _ \<Rightarrow> prefix es evs)"

text \<open>
  \<open>tracks L f g evs\<close>: \<open>f\<close>, on the wrapped library, does what \<open>g\<close> does on \<open>L\<close> itself, and its
  trace has no gap, consists of genuine steps of \<open>L\<close> and follows the script \<open>evs\<close>.
\<close>

definition tracks ::
  "('w, 'e, 'c, 'f, 'm, 'v, 'p) library \<Rightarrow> ('w \<times> 'w trace, 'e, 'a) op \<Rightarrow> ('w, 'e, 'a) op
     \<Rightarrow> event list \<Rightarrow> bool" where
  "tracks L f g evs \<longleftrightarrow>
     (\<forall>w tr r w' tr'. f (w, tr) = (r, (w', tr')) \<longrightarrow>
        g w = (r, w') \<and>
        (\<exists>new. tr' = tr @ new \<and> linked w new w' \<and> list_all (genuine L) new
           \<and> script_of r evs (map fst new)))"

subsection \<open>The stages of the flow\<close>

datatype stage = Load_corpus | Filter_vocabulary | Build_matrix | Fit_model | Visualize

fun stage_of :: "event \<Rightarrow> stage option" where
  "stage_of (Ev_cophi_corpus _ _ _ _) = Some Load_corpus"
| "stage_of (Ev_mfw _) = Some Filter_vocabulary"
| "stage_of Ev_hapax = Some Filter_vocabulary"
| "stage_of Ev_dtm = Some Build_matrix"
| "stage_of Ev_drop = Some Build_matrix"
| "stage_of (Ev_fillna _) = Some Build_matrix"
| "stage_of (Ev_astype _) = Some Build_matrix"
| "stage_of (Ev_LDA _ _ _) = Some Fit_model"
| "stage_of Ev_fit = Some Fit_model"
| "stage_of Ev_Vis = Some Visualize"
| "stage_of Ev_topic_document = Some Visualize"
| "stage_of _ = None"

definition flow :: "event list \<Rightarrow> stage list" where
  "flow evs = remdups_adj (List.map_filter stage_of evs)"

subsection \<open>Configuration values and designated resources\<close>

fun takes_configuration :: "event \<Rightarrow> bool" where
  "takes_configuration (Ev_mfw _) = True"
| "takes_configuration (Ev_LDA _ _ _) = True"
| "takes_configuration _ = False"

datatype resource = Directory path | Executable string

fun resources :: "event \<Rightarrow> resource list" where
  "resources (Ev_cophi_corpus dir _ _ _) = [Directory dir]"
| "resources (Ev_LDA _ _ exe) = [Executable exe]"
| "resources _ = []"

subsection \<open>What the library calls do to the world\<close>

definition preserves :: "('w \<Rightarrow> bool) \<Rightarrow> ('w, 'e, 'a) op \<Rightarrow> bool" where
  "preserves I f \<longleftrightarrow> (\<forall>w. I w \<longrightarrow> I (snd (f w)))"

text \<open>The calls into \<^verbatim>\<open>cophi\<close>, \<^verbatim>\<open>pandas\<close> and the interpreter, and the calls into \<^verbatim>\<open>dariah\<close>.\<close>

definition outside_dariah_preserves ::
  "('w, 'e, 'c, 'f, 'm, 'v, 'p) library \<Rightarrow> ('w \<Rightarrow> bool) \<Rightarrow> bool" where
  "outside_dariah_preserves L I \<longleftrightarrow>
     (\<forall>name. preserves I (import_module L name)) \<and>
     (\<forall>dir lc tp md. preserves I (cophi_corpus L dir lc tp md)) \<and>
     (\<forall>c n. preserves I (corpus_mfw L c n)) \<and>
     (\<forall>c. preserves I (corpus_hapax L c)) \<and>
     (\<forall>c. preserves I (corpus_dtm L c)) \<and>
     (\<forall>c d fs. preserves I (corpus_drop L c d fs)) \<and>
     (\<forall>d i. preserves I (frame_fillna L d i)) \<and>
     (\<forall>d t. preserves I (frame_astype L d t)) \<and>
     (\<forall>d n. preserves I (frame_iloc_columns L d n)) \<and>
     preserves I (matplotlib_inline L)"

definition dariah_preserves ::
  "('w, 'e, 'c, 'f, 'm, 'v, 'p) library \<Rightarrow> ('w \<Rightarrow> bool) \<Rightarrow> bool" where
  "dariah_preserves L I \<longleftrightarrow>
     (\<forall>k n exe. preserves I (dariah_core_LDA L k n exe)) \<and>
     (\<forall>mo d. preserves I (model_fit L mo d)) \<and>
     (\<forall>mo. preserves I (model_topics L mo)) \<and>
     (\<forall>mo. preserves I (dariah_core_Vis L mo)) \<and>
     (\<forall>v. preserves I (vis_topic_document L v))"

text \<open>
  \<open>outside_dariah_keeps L procs\<close>: no operation outside \<^verbatim>\<open>dariah\<close> changes what \<open>procs\<close> observes
  of the world, in whatever world and with whatever arguments it is called.
\<close>

definition outside_dariah_keeps ::
  "('w, 'e, 'c, 'f, 'm, 'v, 'p) library \<Rightarrow> ('w \<Rightarrow> 'x) \<Rightarrow> bool" where
  "outside_dariah_keeps L procs \<longleftrightarrow>
     (\<forall>name w. procs (snd (import_module L name w)) = procs w) \<and>
     (\<forall>dir lc tp md w. procs (snd (cophi_corpus L dir lc tp md w)) = procs w) \<and>
     (\<forall>c n w. procs (snd (corpus_mfw L c n w)) = procs w) \<and>
     (\<forall>c w. procs (snd (corpus_hapax L c w)) = procs w) \<and>
     (\<forall>c w. procs (snd (corpus_dtm L c w)) = procs w) \<and>
     (\<forall>c d fs w. procs (snd (corpus_drop L c d fs w)) = procs w) \<and>
     (\<forall>d i w. procs (snd (frame_fillna L d i w)) = procs w) \<and>
     (\<forall>d t w. procs (snd (frame_astype L d t w)) = procs w) \<and>
     (\<forall>d n w. procs (snd (frame_iloc_columns L d n w)) = procs w) \<and>
     (\<forall>w. procs (snd (matplotlib_inline L w)) = procs w)"

section \<open>The data the packages hand to the notebook\<close>

text \<open>
  The notebook says what its data is: ``The corpus is represented as a document-term matrix
  with absolute word frequencies from which the features you selected above are dropped'',
  and its stored output shows the matrix with one row for each document and one column
  for each word. The code of \<^verbatim>\<open>cophi\<close> and \<^verbatim>\<open>pandas\<close> is not in the repository, so the
  operations on this matrix are modelled here, from the specification and from the names
  of the calls, and kept apart from the notebook's own code above.
\<close>

datatype exn = FileNotFoundError | ValueError

text \<open>
  Modelled from the spec: the document-term matrix, a ``table of per-document word
  counts''. \<open>frame_index\<close> holds the row labels (the documents), \<open>frame_columns\<close> the columns
  from left to right, each with its label (the word) and one cell for each row; a cell is a
  count or missing (\<open>None\<close>, the NaN of \<^verbatim>\<open>pandas\<close>). A count stored as a float is represented by
  its integer value.
\<close>

record dataframe =
  frame_index :: "string list"
  frame_columns :: "(string \<times> int option list) list"
  frame_dtype :: dtype

definition column_labels :: "dataframe \<Rightarrow> string list" where
  "column_labels d = map fst (frame_columns d)"

definition cells :: "dataframe \<Rightarrow> int option list" where
  "cells d = concat (map snd (frame_columns d))"

definition count_of :: "int option \<Rightarrow> int" where
  "count_of x = (case x of None \<Rightarrow> 0 | Some n \<Rightarrow> n)"

text \<open>How often a word occurs in the whole corpus: the sum of its counts over the documents.\<close>

definition occurrences :: "dataframe \<Rightarrow> string \<Rightarrow> int" where
  "occurrences d word =
     sum_list (concat (map (\<lambda>(label, xs). if label = word then map count_of xs else [])
       (frame_columns d)))"

text \<open>
  Modelled from the spec: \<^verbatim>\<open>corpus.hapax\<close>, the ``words occurring exactly once in a corpus''.
  Missing from the repository: the property \<^verbatim>\<open>hapax\<close> of the \<^verbatim>\<open>cophi\<close> corpus class.
\<close>

definition hapax_model :: "dataframe \<Rightarrow> string list" where
  "hapax_model d = filter (\<lambda>word. occurrences d word = 1) (column_labels d)"

text \<open>
  Modelled from the spec: \<^verbatim>\<open>corpus.drop(dtm, features)\<close>, the matrix ``from which the features
  you selected above are dropped'': the columns whose label is among the features are
  removed, everything else stays. Missing from the repository: the method \<^verbatim>\<open>drop\<close> of the
  \<^verbatim>\<open>cophi\<close> corpus class.
\<close>

definition drop_model :: "dataframe \<Rightarrow> string list \<Rightarrow> dataframe" where
  "drop_model d features =
     d\<lparr>frame_columns := filter (\<lambda>col. fst col \<notin> set features) (frame_columns d)\<rparr>"

text \<open>
  Modelled from the spec: \<^verbatim>\<open>DataFrame.fillna(value)\<close>. The spec gives no more than the call;
  it is taken with the meaning \<^verbatim>\<open>pandas\<close> documents: \<open>value\<close> is put into every missing cell.
  Missing from the repository: \<^verbatim>\<open>pandas\<close>.
\<close>

definition fillna_model :: "dataframe \<Rightarrow> int \<Rightarrow> dataframe" where
  "fillna_model d v =
     d\<lparr>frame_columns :=
         map (\<lambda>(label, xs). (label, map (\<lambda>x. case x of None \<Rightarrow> Some v | Some n \<Rightarrow> Some n) xs))
           (frame_columns d)\<rparr>"

text \<open>
  Modelled from the spec: \<^verbatim>\<open>DataFrame.astype(dtype)\<close>. The spec gives no more than the call;
  it is taken with the meaning \<^verbatim>\<open>pandas\<close> documents: the conversion to \<^verbatim>\<open>int\<close> raises
  \<^verbatim>\<open>ValueError\<close> when a cell is missing, and otherwise keeps the counts and sets the type of
  the cells. Missing from the repository: \<^verbatim>\<open>pandas\<close>.
\<close>

definition astype_model :: "dataframe \<Rightarrow> dtype \<Rightarrow> ('w, exn, dataframe) op" where
  "astype_model d t =
     (case t of
        Dtype_int \<Rightarrow>
          if None \<in> set (cells d) then raise ValueError
          else return (d\<lparr>frame_dtype := Dtype_int\<rparr>)
      | Dtype_float \<Rightarrow> return (d\<lparr>frame_dtype := Dtype_float\<rparr>))"

text \<open>
  Modelled from the spec: \<^verbatim>\<open>DataFrame.iloc[:, :n]\<close>. The spec gives no more than the call; it
  is taken with the meaning \<^verbatim>\<open>pandas\<close> documents: the first \<open>n\<close> columns (all but the last \<open>-n\<close>
  when \<open>n\<close> is negative, as Python slices count). Missing from the repository: \<^verbatim>\<open>pandas\<close>.
\<close>

definition iloc_columns_model :: "dataframe \<Rightarrow> int \<Rightarrow> dataframe" where
  "iloc_columns_model d n =
     d\<lparr>frame_columns :=
         (if 0 \<le> n then take (nat n) (frame_columns d)
          else take (length (frame_columns d) - nat (- n)) (frame_columns d))\<rparr>"

text \<open>
  A library whose corpus is its document-term matrix and whose operations on the matrix
  are the modelled ones. Loading the corpus, the most frequent words and all of \<^verbatim>\<open>dariah\<close>
  stay those of \<open>L\<close>, whatever they are.
\<close>

definition with_modelled_frames ::
  "('w, exn, dataframe, dataframe, 'm, 'v, 'p) library
     \<Rightarrow> ('w, exn, dataframe, dataframe, 'm, 'v, 'p) library" where
  "with_modelled_frames L =
     L\<lparr>corpus_hapax := (\<lambda>c. return (hapax_model c)),
       corpus_dtm := (\<lambda>c. return c),
       corpus_drop := (\<lambda>c d features. return (drop_model d features)),
       frame_fillna := (\<lambda>d v. return (fillna_model d v)),
       frame_astype := astype_model,
       frame_iloc_columns := (\<lambda>d n. return (iloc_columns_model d n))\<rparr>"

text \<open>
  What cell 7 binds to \<^verbatim>\<open>dtm\<close> when the operations on the matrix are the modelled ones: the
  matrix of the corpus without the columns of the features, its missing cells filled with
  0, its cells of integer type.
\<close>

definition filtered :: "dataframe \<Rightarrow> string list \<Rightarrow> dataframe" where
  "filtered c fs = (fillna_model (drop_model c fs) 0)\<lparr>frame_dtype := Dtype_int\<rparr>"

subsection \<open>A small library to run the notebook on\<close>

text \<open>
  A corpus of two documents and three words. The world is the list of the executables
  started so far; only \<^verbatim>\<open>model.fit\<close> starts one, the one the model was given, if it was
  given one. The operations on the matrix are the modelled ones: \<open>with_modelled_frames\<close>
  replaces the six placeholders of the record below.
\<close>

definition sample_dtm :: dataframe where
  "sample_dtm =
     \<lparr>frame_index = [''doc_a'', ''doc_b''],
      frame_columns =
        [(''the'', [Some 3, Some 2]), (''whale'', [Some 1, None]), (''sea'', [None, Some 2])],
      frame_dtype = Dtype_float\<rparr>"

definition sample_fs :: "path \<Rightarrow> dataframe option" where
  "sample_fs dir = (if dir = directory then Some sample_dtm else None)"

definition most_frequent :: "dataframe \<Rightarrow> int \<Rightarrow> string list" where
  "most_frequent d n = take (nat n) (sort_key (\<lambda>word. - occurrences d word) (column_labels d))"

definition no_topics :: dataframe where
  "no_topics = \<lparr>frame_index = [], frame_columns = [], frame_dtype = Dtype_float\<rparr>"

definition sample_library ::
  "(path \<Rightarrow> dataframe option)
     \<Rightarrow> (string list, exn, dataframe, dataframe, int \<times> int \<times> string, int \<times> int \<times> string, unit) library" where
  "sample_library fs =
     with_modelled_frames
       \<lparr>import_module = (\<lambda>name. return ()),
        cophi_corpus = (\<lambda>dir lc tp md. case fs dir of None \<Rightarrow> raise FileNotFoundError | Some d \<Rightarrow> return d),
        corpus_mfw = (\<lambda>c n. return (most_frequent c n)),
        corpus_hapax = (\<lambda>c. return []),
        corpus_dtm = (\<lambda>c. return c),
        corpus_drop = (\<lambda>c d features. return d),
        frame_fillna = (\<lambda>d v. return d),
        frame_astype = (\<lambda>d t. return d),
        frame_iloc_columns = (\<lambda>d n. return d),
        dariah_core_LDA = (\<lambda>k n exe. return (k, n, exe)),
        model_fit = (\<lambda>(k, n, exe) d. (\<lambda>w. (Inr (), if exe = [] then w else w @ [exe]))),
        model_topics = (\<lambda>mo. return no_topics),
        dariah_core_Vis = (\<lambda>mo. return mo),
        matplotlib_inline = return (),
        vis_topic_document = (\<lambda>v. return ())\<rparr>"

text \<open>What the kernel holds after the notebook has run on the sample corpus.\<close>

definition sample_namespace ::
  "(dataframe, dataframe, int \<times> int \<times> string, int \<times> int \<times> string, unit) namespace" where
  "sample_namespace =
     \<lparr>var_corpus = sample_dtm,
      var_mfw = [''the'', ''sea'', ''whale''],
      var_features = [''the'', ''sea'', ''whale'', ''whale''],
      var_dtm = \<lparr>frame_index = [''doc_a'', ''doc_b''], frame_columns = [], frame_dtype = Dtype_int\<rparr>,
      var_model = (10, 1000, ''mallet-2.0.8/bin/mallet''),
      var_vis = (10, 1000, ''mallet-2.0.8/bin/mallet''),
      outputs =
        [Out_list [''the'', ''sea'', ''whale''], Out_list [''whale''],
         Out_stdout (''4 types will be removed from the corpus.'' @ [CHR 0x0A]),
         Out_frame \<lparr>frame_index = [''doc_a'', ''doc_b''], frame_columns = [], frame_dtype = Dtype_int\<rparr>,
         Out_model (10, 1000, ''mallet-2.0.8/bin/mallet''),
         Out_frame no_topics,
         Out_vis (10, 1000, ''mallet-2.0.8/bin/mallet''), Out_plot ()]\<rparr>"

text \<open>The sample matrix after \<^verbatim>\<open>drop\<close> of the one feature ``the'', \<^verbatim>\<open>fillna(0)\<close> and \<^verbatim>\<open>astype(int)\<close>.\<close>

definition sample_filtered :: dataframe where
  "sample_filtered =
     \<lparr>frame_index = [''doc_a'', ''doc_b''],
      frame_columns = [(''whale'', [Some 1, Some 0]), (''sea'', [Some 0, Some 2])],
      frame_dtype = Dtype_int\<rparr>"

text \<open>
  The worlds of the run on the sample corpus: no executable is started up to and including
  \<^verbatim>\<open>dariah.core.LDA\<close>, \<^verbatim>\<open>model.fit\<close> starts mallet, and nothing changes after it.
\<close>

definition sample_trace :: "string list trace" where
  "sample_trace =
     map (\<lambda>ev. (ev, [], [])) (preprocessing_events @ [Ev_LDA 10 1000 ''mallet-2.0.8/bin/mallet''])
     @ [(Ev_fit, [], [''mallet-2.0.8/bin/mallet''])]
     @ map (\<lambda>ev. (ev, [''mallet-2.0.8/bin/mallet''], [''mallet-2.0.8/bin/mallet'']))
         ([Ev_topics, Ev_iloc_columns 5] @ visualizing_events)"

text \<open>
  A corpus of one document and twelve words, three of them occurring once, so that the
  number of features has two digits.
\<close>

definition wide_words :: "string list" where
  "wide_words =
     [''w01'', ''w02'', ''w03'', ''w04'', ''w05'', ''w06'', ''w07'', ''w08'', ''w09'',
      ''w10'', ''w11'', ''w12'']"

definition wide_dtm :: dataframe where
  "wide_dtm =
     \<lparr>frame_index = [''doc''],
      frame_columns =
        [(''w01'', [Some 12]), (''w02'', [Some 11]), (''w03'', [Some 10]), (''w04'', [Some 9]),
         (''w05'', [Some 8]), (''w06'', [Some 7]), (''w07'', [Some 6]), (''w08'', [Some 5]),
         (''w09'', [Some 4]), (''w10'', [Some 1]), (''w11'', [Some 1]), (''w12'', [Some 1])],
      frame_dtype = Dtype_float\<rparr>"

definition wide_fs :: "path \<Rightarrow> dataframe option" where
  "wide_fs dir = (if dir = directory then Some wide_dtm else None)"

definition wide_filtered :: dataframe where
  "wide_filtered = \<lparr>frame_index = [''doc''], frame_columns = [], frame_dtype = Dtype_int\<rparr>"

section \<open>Proofs\<close>

subsection \<open>The f-string\<close>

text \<open>The number the notebook's stored output shows.\<close>

lemma str_nat_13087: "str_nat 13087 = ''13087''"
  by (simp add: str_nat.simps digit_char_def)

text \<open>The numeral \<open>str_nat\<close> writes is made of digits, reads as the number, and has no leading 0.\<close>

lemma digit_char_value:
  assumes "d < 10"
  shows "is_digit (digit_char d) \<and> digit_value (digit_char d) = d"
proof -
  from assms have "d \<in> {0, 1, 2, 3, 4, 5, 6, 7, 8, 9}" by auto
  then show ?thesis
    by (elim insertE emptyE) (simp_all add: digit_char_def is_digit_def digit_value_def)
qed

lemma decimal_value_snoc: "decimal_value (s @ [c]) = 10 * decimal_value s + digit_value c"
  by (simp add: decimal_value_def)

lemma str_nat_decimal:
  "list_all is_digit (str_nat n) \<and> decimal_value (str_nat n) = n \<and> str_nat n \<noteq> []
     \<and> (hd (str_nat n) = CHR ''0'' \<longrightarrow> n = 0)"
proof (induction n rule: str_nat.induct)
  case (1 n)
  show ?case
  proof (cases "n < 10")
    case True
    then have s: "str_nat n = [digit_char n]" by (simp add: str_nat.simps)
    from digit_char_value [OF True] have "is_digit (digit_char n)" "digit_value (digit_char n) = n"
      by simp_all
    moreover have "digit_char n = CHR ''0'' \<longrightarrow> n = 0"
    proof
      assume "digit_char n = CHR ''0''"
      then have "digit_value (digit_char n) = 0" by (simp add: digit_value_def)
      with \<open>digit_value (digit_char n) = n\<close> show "n = 0" by simp
    qed
    ultimately show ?thesis using s by (simp add: decimal_value_def)
  next
    case False
    then have s: "str_nat n = str_nat (n div 10) @ [digit_char (n mod 10)]"
      by (simp add: str_nat.simps)
    from "1.IH" [OF False] have ih: "list_all is_digit (str_nat (n div 10))"
      "decimal_value (str_nat (n div 10)) = n div 10" "str_nat (n div 10) \<noteq> []"
      "hd (str_nat (n div 10)) = CHR ''0'' \<longrightarrow> n div 10 = 0"
      by simp_all
    have m: "n mod 10 < 10" by simp
    from digit_char_value [OF m] have d: "is_digit (digit_char (n mod 10))"
      "digit_value (digit_char (n mod 10)) = n mod 10" by simp_all
    have "n div 10 \<noteq> 0" using False by simp
    with ih(4) have "hd (str_nat (n div 10)) \<noteq> CHR ''0''" by blast
    then have "hd (str_nat n) \<noteq> CHR ''0''" using s ih(3) by simp
    moreover have "decimal_value (str_nat n) = n"
      unfolding s decimal_value_snoc ih(2) d(2) by simp
    moreover have "list_all is_digit (str_nat n)" using s ih(1) d(1) by simp
    moreover have "str_nat n \<noteq> []" using s by simp
    ultimately show ?thesis by simp
  qed
qed

subsection \<open>Runs on the wrapped library follow the script\<close>

lemma follows_logged_op: "follows (logged_op ev g) g [ev]"
  by (auto simp: follows_def logged_op_def entries_of_def ok_def raised_def split: prod.splits sum.splits)

lemma follows_return: "follows (return a) (return a) []"
  by (simp add: follows_def return_def entries_of_def ok_def)

lemma entries_of_Inl_append1:
  assumes "entries_of (Inl e) evs1 new"
  shows "entries_of (Inl e) (evs1 @ evs2) new"
proof -
  from assms obtain k where k: "k < length evs1"
    and new: "new = ok (take k evs1) @ [(evs1 ! k, Some e)]"
    by (auto simp: entries_of_def)
  have "k < length (evs1 @ evs2)" using k by simp
  moreover have "new = ok (take k (evs1 @ evs2)) @ [((evs1 @ evs2) ! k, Some e)]"
    using k new by (simp add: nth_append)
  ultimately show ?thesis
    unfolding entries_of_def by (simp only: sum.case) blast
qed

lemma entries_of_append2:
  assumes "entries_of r evs2 new"
  shows "entries_of r (evs1 @ evs2) (ok evs1 @ new)"
proof (cases r)
  case (Inl e)
  with assms obtain k where k: "k < length evs2"
    and new: "new = ok (take k evs2) @ [(evs2 ! k, Some e)]"
    by (auto simp: entries_of_def)
  have "length evs1 + k < length (evs1 @ evs2)" using k by simp
  moreover have "ok evs1 @ new =
      ok (take (length evs1 + k) (evs1 @ evs2)) @ [((evs1 @ evs2) ! (length evs1 + k), Some e)]"
    using new by (simp add: nth_append ok_def)
  ultimately show ?thesis
    unfolding entries_of_def Inl by (simp only: sum.case) blast
next
  case (Inr a)
  with assms show ?thesis
    by (simp add: entries_of_def ok_def)
qed

lemma follows_bind:
  assumes m: "follows m m' evs1"
    and k: "\<And>a. follows (f a) (f' a) evs2"
    and evs: "evs = evs1 @ evs2"
  shows "follows (bind m f) (bind m' f') evs"
  unfolding follows_def
proof (intro allI)
  fix w lg
  obtain r1 w1 lg1 where r1: "m (w, lg) = (r1, (w1, lg1))"
    by (metis surj_pair)
  from m r1 obtain new1 where m': "m' w = (r1, w1)" and lg1: "lg1 = lg @ new1"
    and e1: "entries_of r1 evs1 new1"
    unfolding follows_def by blast
  fix r w' lg'
  show "bind m f (w, lg) = (r, (w', lg')) \<longrightarrow>
      bind m' f' w = (r, w') \<and> (\<exists>new. lg' = lg @ new \<and> entries_of r evs new)"
  proof (cases r1)
    case (Inl e)
    then show ?thesis
      using r1 m' lg1 e1 evs by (auto simp: bind_def intro: entries_of_Inl_append1)
  next
    case (Inr a)
    obtain r2 w2 lg2 where r2: "f a (w1, lg1) = (r2, (w2, lg2))"
      by (metis surj_pair)
    from k [of a] r2 obtain new2 where f': "f' a w1 = (r2, w2)" and lg2: "lg2 = lg1 @ new2"
      and e2: "entries_of r2 evs2 new2"
      unfolding follows_def by blast
    from Inr e1 have new1: "new1 = ok evs1" by (simp add: entries_of_def)
    have "entries_of r2 evs (new1 @ new2)"
      using entries_of_append2 [OF e2, of evs1] new1 evs by simp
    then show ?thesis
      using Inr r1 r2 m' f' lg1 lg2 by (auto simp: bind_def)
  qed
qed

lemma follows_case_prod:
  "(\<And>a b. follows (f a b) (g a b) evs) \<Longrightarrow>
     follows (case p of (a, b) \<Rightarrow> f a b) (case p of (a, b) \<Rightarrow> g a b) evs"
  by (cases p) simp

lemma logged_simps:
  "import_module (logged L) name = logged_op (Ev_import name) (import_module L name)"
  "cophi_corpus (logged L) dir lc tp md = logged_op (Ev_cophi_corpus dir lc tp md) (cophi_corpus L dir lc tp md)"
  "corpus_mfw (logged L) c n = logged_op (Ev_mfw n) (corpus_mfw L c n)"
  "corpus_hapax (logged L) c = logged_op Ev_hapax (corpus_hapax L c)"
  "corpus_dtm (logged L) c = logged_op Ev_dtm (corpus_dtm L c)"
  "corpus_drop (logged L) c d fs = logged_op Ev_drop (corpus_drop L c d fs)"
  "frame_fillna (logged L) d i = logged_op (Ev_fillna i) (frame_fillna L d i)"
  "frame_astype (logged L) d t = logged_op (Ev_astype t) (frame_astype L d t)"
  "frame_iloc_columns (logged L) d n = logged_op (Ev_iloc_columns n) (frame_iloc_columns L d n)"
  "dariah_core_LDA (logged L) k n exe = logged_op (Ev_LDA k n exe) (dariah_core_LDA L k n exe)"
  "model_fit (logged L) mo d = logged_op Ev_fit (model_fit L mo d)"
  "model_topics (logged L) mo = logged_op Ev_topics (model_topics L mo)"
  "dariah_core_Vis (logged L) mo = logged_op Ev_Vis (dariah_core_Vis L mo)"
  "matplotlib_inline (logged L) = logged_op Ev_matplotlib_inline (matplotlib_inline L)"
  "vis_topic_document (logged L) v = logged_op Ev_topic_document (vis_topic_document L v)"
  by (simp_all add: logged_def)

lemma follows_cell_1:
  "follows (cell_1 (logged L)) (cell_1 L) [Ev_import ''pathlib'', Ev_import ''dariah'', Ev_import ''cophi'']"
  unfolding cell_1_def logged_simps
  by (rule follows_bind follows_logged_op | simp)+

lemma follows_cell_3:
  "follows (cell_3 (logged L)) (cell_3 L) [Ev_cophi_corpus directory True token_pattern False]"
  unfolding cell_3_def logged_simps by (rule follows_logged_op)

lemma follows_cell_4: "follows (cell_4 (logged L) c) (cell_4 L c) [Ev_mfw 50]"
  unfolding cell_4_def logged_simps
  by (rule follows_bind follows_logged_op follows_return | simp)+

lemma follows_cell_5: "follows (cell_5 (logged L) c) (cell_5 L c) [Ev_hapax]"
  unfolding cell_5_def logged_simps
  by (rule follows_bind follows_logged_op follows_return | simp)+

lemma follows_cell_6: "follows (cell_6 (logged L) c m) (cell_6 L c m) [Ev_hapax]"
  unfolding cell_6_def logged_simps Let_def
  by (rule follows_bind follows_logged_op follows_return | simp)+

lemma follows_cell_7:
  "follows (cell_7 (logged L) c fs) (cell_7 L c fs)
     [Ev_dtm, Ev_drop, Ev_fillna 0, Ev_astype Dtype_int, Ev_iloc_columns 5]"
  unfolding cell_7_def logged_simps
  by (rule follows_bind follows_logged_op follows_return | simp)+

lemma follows_cell_8:
  "follows (cell_8 (logged L)) (cell_8 L) [Ev_LDA 10 1000 ''mallet-2.0.8/bin/mallet'']"
  unfolding cell_8_def logged_simps
  by (rule follows_bind follows_logged_op follows_return | simp)+

lemma follows_cell_9: "follows (cell_9 (logged L) mo d) (cell_9 L mo d) [Ev_fit]"
  unfolding cell_9_def logged_simps by (rule follows_logged_op)

lemma follows_cell_10:
  "follows (cell_10 (logged L) mo) (cell_10 L mo) [Ev_topics, Ev_iloc_columns 5]"
  unfolding cell_10_def logged_simps
  by (rule follows_bind follows_logged_op follows_return | simp)+

lemma follows_cell_11: "follows (cell_11 (logged L) mo) (cell_11 L mo) [Ev_Vis]"
  unfolding cell_11_def logged_simps
  by (rule follows_bind follows_logged_op follows_return | simp)+

lemma follows_cell_12:
  "follows (cell_12 (logged L) v) (cell_12 L v) [Ev_matplotlib_inline, Ev_topic_document]"
  unfolding cell_12_def logged_simps
  by (rule follows_bind follows_logged_op follows_return | simp)+

lemmas follows_cells = follows_cell_1 follows_cell_3 follows_cell_4 follows_cell_5 follows_cell_6
  follows_cell_7 follows_cell_8 follows_cell_9 follows_cell_10 follows_cell_11 follows_cell_12

lemma follows_preprocessing:
  "follows (preprocessing (logged L)) (preprocessing L) preprocessing_events"
  unfolding preprocessing_def preprocessing_events_def
  by (rule follows_bind follows_case_prod follows_cells follows_return | simp)+

lemma follows_training:
  "follows (training (logged L) d) (training L d) training_events"
  unfolding training_def training_events_def
  by (rule follows_bind follows_case_prod follows_cells follows_return | simp)+

lemma follows_visualizing:
  "follows (visualizing (logged L) mo) (visualizing L mo) visualizing_events"
  unfolding visualizing_def visualizing_events_def
  by (rule follows_bind follows_case_prod follows_cells follows_return | simp)+

lemma follows_run: "follows (run (logged L)) (run L) stage_events"
  unfolding run_def stage_events_def
  by (rule follows_bind follows_case_prod follows_preprocessing follows_training
      follows_visualizing follows_return | simp)+

lemma run_logged:
  assumes "run (logged L) (w, []) = (r, (w', lg))"
  shows "run L w = (r, w')" and "entries_of r stage_events lg"
proof -
  have "follows (run (logged L)) (run L) stage_events" by (rule follows_run)
  with assms have "run L w = (r, w') \<and> (\<exists>new. lg = [] @ new \<and> entries_of r stage_events new)"
    unfolding follows_def by blast
  then show "run L w = (r, w')" and "entries_of r stage_events lg" by simp_all
qed

lemma entries_of_prefix:
  assumes "entries_of r evs lg"
  shows "prefix (map fst lg) evs"
proof (cases r)
  case (Inl e)
  with assms obtain k where k: "k < length evs" and lg: "lg = ok (take k evs) @ [(evs ! k, Some e)]"
    by (auto simp: entries_of_def)
  have "map fst lg = take (Suc k) evs"
    using k lg by (simp add: ok_def comp_def take_Suc_conv_app_nth)
  then show ?thesis by (simp add: take_is_prefix)
next
  case (Inr a)
  with assms show ?thesis by (simp add: entries_of_def ok_def comp_def)
qed

lemma entries_of_Inr: "entries_of (Inr a) evs lg \<Longrightarrow> map fst lg = evs"
  by (simp add: entries_of_def ok_def comp_def)

subsection \<open>Prefixes of the script\<close>

lemma prefix_map_filter: "prefix xs ys \<Longrightarrow> prefix (List.map_filter f xs) (List.map_filter f ys)"
  by (auto simp: prefix_def map_filter_def)

lemma prefix_concat_map: "prefix xs ys \<Longrightarrow> prefix (concat (map f xs)) (concat (map f ys))"
  by (auto simp: prefix_def)

lemma remdups_adj_starts: "\<exists>rest. remdups_adj (x # xs) = x # rest"
  by (simp add: remdups_adj_Cons split: list.splits)

lemma prefix_remdups_adj: "prefix xs ys \<Longrightarrow> prefix (remdups_adj xs) (remdups_adj ys)"
proof (induction xs arbitrary: ys rule: remdups_adj.induct)
  case 1
  then show ?case by simp
next
  case (2 x)
  then obtain zs where "ys = x # zs" by (auto simp: prefix_def)
  moreover from remdups_adj_starts [of x zs] obtain rest where "remdups_adj (x # zs) = x # rest" ..
  ultimately show ?case by simp
next
  case (3 x y xs)
  from "3.prems" obtain zs where ys: "ys = x # y # zs" and p: "prefix xs zs"
    by (auto simp: prefix_def)
  show ?case
  proof (cases "x = y")
    case True
    have "prefix (x # xs) (x # zs)" using p by simp
    from "3.IH"(1) [OF True this] show ?thesis using True ys by simp
  next
    case False
    have "prefix (y # xs) (y # zs)" using p by simp
    from "3.IH"(2) [OF False this] show ?thesis using False ys by simp
  qed
qed

lemma prefix_flow: "prefix xs ys \<Longrightarrow> prefix (flow xs) (flow ys)"
  unfolding flow_def by (intro prefix_remdups_adj prefix_map_filter)

lemma flow_stage_events:
  "flow stage_events = [Load_corpus, Filter_vocabulary, Build_matrix, Fit_model, Visualize]"
  by code_simp

lemma configuration_stage_events:
  "filter takes_configuration stage_events = [Ev_mfw 50, Ev_LDA 10 1000 ''mallet-2.0.8/bin/mallet'']"
  by code_simp

lemma resources_stage_events:
  "concat (map resources stage_events) = [Directory directory, Executable ''mallet-2.0.8/bin/mallet'']"
  by code_simp

subsection \<open>The notebook on the sample library\<close>

lemma sample_run:
  "run (logged (sample_library sample_fs)) ([], []) =
     (Inr sample_namespace, ([''mallet-2.0.8/bin/mallet''], ok stage_events))"
  by code_simp

lemma sample_run_missing_corpus:
  "run (logged (sample_library (\<lambda>_. None))) ([], []) =
     (Inl FileNotFoundError,
      ([], ok (take 3 stage_events) @ [(stage_events ! 3, Some FileNotFoundError)]))"
  by code_simp

subsection \<open>Only library calls touch the world\<close>

lemma bind_cases:
  assumes "bind m f s = (r, s')"
  shows "(\<exists>e. m s = (Inl e, s') \<and> r = Inl e) \<or> (\<exists>a s1. m s = (Inr a, s1) \<and> f a s1 = (r, s'))"
  using assms by (auto simp: bind_def split: prod.splits sum.splits)

lemma preserves_return: "preserves I (return a)"
  by (simp add: preserves_def return_def)

lemma preserves_bind:
  assumes "preserves I m" and "\<And>a. preserves I (f a)"
  shows "preserves I (bind m f)"
  unfolding preserves_def
proof (intro allI impI)
  fix w assume w: "I w"
  obtain r w1 where m: "m w = (r, w1)" by (metis surj_pair)
  with assms(1) w have w1: "I w1" by (auto simp: preserves_def dest!: spec [of _ w])
  show "I (snd (bind m f w))"
  proof (cases r)
    case (Inl e)
    with m w1 show ?thesis by (simp add: bind_def)
  next
    case (Inr a)
    from assms(2) [of a] w1 have "I (snd (f a w1))" by (simp add: preserves_def)
    with m Inr show ?thesis by (simp add: bind_def)
  qed
qed

lemma preserves_case_prod:
  "(\<And>a b. preserves I (f a b)) \<Longrightarrow> preserves I (case p of (a, b) \<Rightarrow> f a b)"
  by (cases p) simp

lemma preserves_preprocessing:
  assumes "outside_dariah_preserves L I"
  shows "preserves I (preprocessing L)"
  using assms
  unfolding preprocessing_def cell_1_def cell_3_def cell_4_def cell_5_def cell_6_def cell_7_def
    Let_def outside_dariah_preserves_def
  by (intro preserves_bind preserves_case_prod preserves_return) blast+

lemma preserves_training:
  assumes "outside_dariah_preserves L I" and "dariah_preserves L I"
  shows "preserves I (training L d)"
  using assms
  unfolding training_def cell_8_def cell_9_def cell_10_def
    outside_dariah_preserves_def dariah_preserves_def
  by (intro preserves_bind preserves_case_prod preserves_return) blast+

lemma preserves_visualizing:
  assumes "outside_dariah_preserves L I" and "dariah_preserves L I"
  shows "preserves I (visualizing L mo)"
  using assms
  unfolding visualizing_def cell_11_def cell_12_def
    outside_dariah_preserves_def dariah_preserves_def
  by (intro preserves_bind preserves_case_prod preserves_return) blast+

lemma preserves_run:
  assumes "outside_dariah_preserves L I" and "dariah_preserves L I"
  shows "preserves I (run L)"
  unfolding run_def
  by (intro preserves_bind preserves_case_prod preserves_return
      preserves_preprocessing preserves_training preserves_visualizing assms)

subsection \<open>Runs on the world-recording library\<close>

lemma linked_append:
  "linked w xs w1 \<Longrightarrow> linked w1 ys w2 \<Longrightarrow> linked w (xs @ ys) w2"
  by (induction w xs w1 rule: linked.induct) auto

lemma tracks_traced_op:
  assumes "\<And>w. genuine L (ev, w, snd (g w))"
  shows "tracks L (traced_op ev g) g [ev]"
  unfolding tracks_def
proof (intro allI impI)
  fix w tr r w' tr'
  assume "traced_op ev g (w, tr) = (r, (w', tr'))"
  then have g: "g w = (r, w')" and tr': "tr' = tr @ [(ev, w, w')]"
    by (auto simp: traced_op_def split: prod.splits)
  from assms [of w] g have "genuine L (ev, w, w')" by simp
  then have "linked w [(ev, w, w')] w' \<and> list_all (genuine L) [(ev, w, w')]
      \<and> script_of r [ev] (map fst [(ev, w, w')])"
    by (simp add: script_of_def split: sum.splits)
  with g tr' show "g w = (r, w') \<and>
      (\<exists>new. tr' = tr @ new \<and> linked w new w' \<and> list_all (genuine L) new
         \<and> script_of r [ev] (map fst new))"
    by blast
qed

lemma tracks_return: "tracks L (return a) (return a) []"
  by (simp add: tracks_def return_def script_of_def)

lemma tracks_bind:
  assumes m: "tracks L m m' evs1"
    and k: "\<And>a. tracks L (f a) (f' a) evs2"
    and evs: "evs = evs1 @ evs2"
  shows "tracks L (bind m f) (bind m' f') evs"
  unfolding tracks_def
proof (intro allI impI)
  fix w tr r w' tr'
  assume run: "bind m f (w, tr) = (r, (w', tr'))"
  obtain r1 w1 tr1 where r1: "m (w, tr) = (r1, (w1, tr1))"
    by (metis surj_pair)
  from m r1 obtain new1 where m': "m' w = (r1, w1)" and tr1: "tr1 = tr @ new1"
    and l1: "linked w new1 w1" and g1: "list_all (genuine L) new1"
    and s1: "script_of r1 evs1 (map fst new1)"
    unfolding tracks_def by blast
  show "bind m' f' w = (r, w') \<and>
      (\<exists>new. tr' = tr @ new \<and> linked w new w' \<and> list_all (genuine L) new
         \<and> script_of r evs (map fst new))"
  proof (cases r1)
    case (Inl e)
    with run r1 have r: "r = Inl e" "w' = w1" "tr' = tr1" by (simp_all add: bind_def)
    from s1 Inl have "prefix (map fst new1) evs1" by (simp add: script_of_def)
    then have "prefix (map fst new1) evs" unfolding evs by (rule prefix_prefix)
    then have "script_of r evs (map fst new1)" using r by (simp add: script_of_def)
    moreover have "bind m' f' w = (r, w')" using m' Inl r by (simp add: bind_def)
    ultimately show ?thesis using r tr1 l1 g1 by blast
  next
    case (Inr a)
    with run r1 have r2: "f a (w1, tr1) = (r, (w', tr'))" by (simp add: bind_def)
    from k [of a] r2 obtain new2 where f': "f' a w1 = (r, w')" and tr2: "tr' = tr1 @ new2"
      and l2: "linked w1 new2 w'" and g2: "list_all (genuine L) new2"
      and s2: "script_of r evs2 (map fst new2)"
      unfolding tracks_def by blast
    from Inr s1 have e1: "map fst new1 = evs1" by (simp add: script_of_def)
    have "script_of r evs (map fst (new1 @ new2))"
      using s2 e1 evs by (auto simp: script_of_def split: sum.splits)
    moreover have "linked w (new1 @ new2) w'" using l1 l2 by (rule linked_append)
    moreover have "list_all (genuine L) (new1 @ new2)" using g1 g2 by simp
    moreover have "bind m' f' w = (r, w')" using m' Inr f' by (simp add: bind_def)
    moreover have "tr' = tr @ (new1 @ new2)" using tr1 tr2 by simp
    ultimately show ?thesis by blast
  qed
qed

lemma tracks_case_prod:
  "(\<And>a b. tracks L (f a b) (g a b) evs) \<Longrightarrow>
     tracks L (case p of (a, b) \<Rightarrow> f a b) (case p of (a, b) \<Rightarrow> g a b) evs"
  by (cases p) simp

lemma traced_simps:
  "import_module (traced L) name = traced_op (Ev_import name) (import_module L name)"
  "cophi_corpus (traced L) dir lc tp md = traced_op (Ev_cophi_corpus dir lc tp md) (cophi_corpus L dir lc tp md)"
  "corpus_mfw (traced L) c n = traced_op (Ev_mfw n) (corpus_mfw L c n)"
  "corpus_hapax (traced L) c = traced_op Ev_hapax (corpus_hapax L c)"
  "corpus_dtm (traced L) c = traced_op Ev_dtm (corpus_dtm L c)"
  "corpus_drop (traced L) c d fs = traced_op Ev_drop (corpus_drop L c d fs)"
  "frame_fillna (traced L) d i = traced_op (Ev_fillna i) (frame_fillna L d i)"
  "frame_astype (traced L) d t = traced_op (Ev_astype t) (frame_astype L d t)"
  "frame_iloc_columns (traced L) d n = traced_op (Ev_iloc_columns n) (frame_iloc_columns L d n)"
  "dariah_core_LDA (traced L) k n exe = traced_op (Ev_LDA k n exe) (dariah_core_LDA L k n exe)"
  "model_fit (traced L) mo d = traced_op Ev_fit (model_fit L mo d)"
  "model_topics (traced L) mo = traced_op Ev_topics (model_topics L mo)"
  "dariah_core_Vis (traced L) mo = traced_op Ev_Vis (dariah_core_Vis L mo)"
  "matplotlib_inline (traced L) = traced_op Ev_matplotlib_inline (matplotlib_inline L)"
  "vis_topic_document (traced L) v = traced_op Ev_topic_document (vis_topic_document L v)"
  by (simp_all add: traced_def)

lemma tracks_preprocessing:
  "tracks L (preprocessing (traced L)) (preprocessing L) preprocessing_events"
  unfolding preprocessing_def preprocessing_events_def cell_1_def cell_3_def cell_4_def cell_5_def
    cell_6_def cell_7_def Let_def traced_simps
  by (rule tracks_bind tracks_case_prod tracks_traced_op tracks_return | simp | blast)+

lemma tracks_training:
  "tracks L (training (traced L) d) (training L d) training_events"
  unfolding training_def training_events_def cell_8_def cell_9_def cell_10_def traced_simps
  by (rule tracks_bind tracks_case_prod tracks_traced_op tracks_return | simp | blast)+

lemma tracks_visualizing:
  "tracks L (visualizing (traced L) mo) (visualizing L mo) visualizing_events"
  unfolding visualizing_def visualizing_events_def cell_11_def cell_12_def traced_simps
  by (rule tracks_bind tracks_case_prod tracks_traced_op tracks_return | simp | blast)+

lemma tracks_run: "tracks L (run (traced L)) (run L) stage_events"
  unfolding run_def stage_events_def
  by (rule tracks_bind tracks_case_prod tracks_preprocessing tracks_training
      tracks_visualizing tracks_return | simp)+

lemma run_traced:
  assumes "run (traced L) (w, []) = (r, (w', tr))"
  shows "run L w = (r, w')" and "linked w tr w'" and "list_all (genuine L) tr"
    and "prefix (map fst tr) stage_events"
proof -
  have "tracks L (run (traced L)) (run L) stage_events" by (rule tracks_run)
  with assms have *: "run L w = (r, w') \<and> (\<exists>new. tr = [] @ new \<and> linked w new w'
      \<and> list_all (genuine L) new \<and> script_of r stage_events (map fst new))"
    unfolding tracks_def by blast
  then show "run L w = (r, w')" and "linked w tr w'" and "list_all (genuine L) tr" by simp_all
  from * have "script_of r stage_events (map fst tr)" by simp
  then show "prefix (map fst tr) stage_events"
    by (cases r) (simp_all add: script_of_def)
qed

lemma genuine_keeps:
  assumes keep: "outside_dariah_keeps L procs"
    and g: "genuine L (ev, b, a)" and nd: "\<not> is_dariah ev"
  shows "procs a = procs b"
  using assms by (cases ev) (auto simp: outside_dariah_keeps_def)

lemma linked_keeps:
  "linked w tr w' \<Longrightarrow> \<forall>x \<in> set tr. procs (snd (snd x)) = procs (fst (snd x)) \<Longrightarrow> procs w' = procs w"
  by (induction w tr w' rule: linked.induct) auto

lemma before_LDA_outside_dariah: "list_all (\<lambda>ev. \<not> is_dariah ev) (take 12 stage_events)"
  by code_simp

lemma stage_events_12: "stage_events ! 12 = Ev_LDA 10 1000 ''mallet-2.0.8/bin/mallet''"
  by code_simp

lemma length_stage_events: "length stage_events = 19"
  by code_simp

lemma dariah_after_LDA:
  assumes p: "prefix es stage_events" and i: "i < length es" and d: "is_dariah (es ! i)"
  shows "\<exists>j \<le> i. es ! j = Ev_LDA 10 1000 ''mallet-2.0.8/bin/mallet''"
proof -
  from p obtain zs where z: "stage_events = es @ zs" by (auto simp: prefix_def)
  have nth: "es ! k = stage_events ! k" if "k < length es" for k
    unfolding z using that by (simp add: nth_append)
  have "12 \<le> i"
  proof (rule ccontr)
    assume "\<not> 12 \<le> i"
    then have lt: "i < 12" by simp
    from before_LDA_outside_dariah have "\<forall>k < length (take 12 stage_events). \<not> is_dariah (take 12 stage_events ! k)"
      by (simp only: list_all_length)
    with lt have "\<not> is_dariah (stage_events ! i)" by (simp add: length_stage_events)
    with d nth [OF i] show False by simp
  qed
  moreover from this i have "es ! 12 = stage_events ! 12" by (intro nth) simp
  ultimately show ?thesis using stage_events_12 by auto
qed

subsection \<open>What the sample library leaves alone\<close>

lemma sample_library_no_nameless_executable:
  "outside_dariah_preserves (sample_library fs) (\<lambda>w. [] \<notin> set w)"
  "dariah_preserves (sample_library fs) (\<lambda>w. [] \<notin> set w)"
  by (auto simp: outside_dariah_preserves_def dariah_preserves_def preserves_def sample_library_def
      with_modelled_frames_def return_def raise_def astype_model_def split: option.splits dtype.splits)

lemma sample_library_outside_dariah_keeps:
  "outside_dariah_keeps (sample_library fs) (\<lambda>x. x)"
  by (auto simp: outside_dariah_keeps_def sample_library_def with_modelled_frames_def
      return_def raise_def astype_model_def split: option.splits dtype.splits)

subsection \<open>Runs that return\<close>

lemma bind_Inr:
  assumes "bind m f w = (Inr b, w')"
  obtains a w1 where "m w = (Inr a, w1)" and "f a w1 = (Inr b, w')"
  using bind_cases [OF assms] by blast

lemma bind_prod_Inr:
  assumes "bind m (\<lambda>(a, b). f a b) w = (Inr r, w')"
  obtains a b w1 where "m w = (Inr (a, b), w1)" and "f a b w1 = (Inr r, w')"
  using bind_cases [OF assms] by auto

lemma return_Inr: "return a w = (Inr b, w') \<Longrightarrow> b = a \<and> w' = w"
  by (simp add: return_def)

lemma cell_4_Inr:
  assumes "cell_4 L c w = (Inr (m, out), w')"
  shows "corpus_mfw L c 50 w = (Inr m, w') \<and> out = Out_list (take 10 m)"
  using assms unfolding cell_4_def
  by (elim bind_Inr) (auto dest!: return_Inr)

lemma cell_5_Inr:
  assumes "cell_5 L c w = (Inr out, w')"
  shows "\<exists>h. corpus_hapax L c w = (Inr h, w') \<and> out = Out_list (take 10 h)"
  using assms unfolding cell_5_def
  by (elim bind_Inr) (auto dest!: return_Inr)

lemma cell_6_Inr:
  assumes "cell_6 L c m w = (Inr (fs, out), w')"
  shows "\<exists>h. corpus_hapax L c w = (Inr h, w') \<and> fs = m @ h \<and> out = Out_stdout (removal_message (m @ h))"
  using assms unfolding cell_6_def Let_def
  by (elim bind_Inr) (auto dest!: return_Inr)

lemma cell_7_Inr:
  assumes "cell_7 L c fs w = (Inr (d, out), w')"
  shows "\<exists>full dropped filled shown w1 w2 w3 w4.
      corpus_dtm L c w = (Inr full, w1) \<and> corpus_drop L c full fs w1 = (Inr dropped, w2)
    \<and> frame_fillna L dropped 0 w2 = (Inr filled, w3) \<and> frame_astype L filled Dtype_int w3 = (Inr d, w4)
    \<and> frame_iloc_columns L d 5 w4 = (Inr shown, w') \<and> out = Out_frame shown"
  using assms unfolding cell_7_def
  by (elim bind_Inr) (auto dest!: return_Inr)

lemma preprocessing_Inr:
  assumes "preprocessing L w = (Inr (c, m, fs, d, outs), w')"
  shows "\<exists>w3 w4 w5 w6 out4 out5 out6 out7.
      cell_4 L c w3 = (Inr (m, out4), w4) \<and> cell_5 L c w4 = (Inr out5, w5)
    \<and> cell_6 L c m w5 = (Inr (fs, out6), w6) \<and> cell_7 L c fs w6 = (Inr (d, out7), w')
    \<and> outs = [out4, out5, out6, out7]"
  using assms unfolding preprocessing_def
  by - ((erule bind_prod_Inr bind_Inr)+, clarsimp dest!: return_Inr, blast)

lemma bind_prod5_Inr:
  assumes "bind m (\<lambda>(a, b, c, d, e). f a b c d e) w = (Inr r, w')"
  obtains a b c d e w1 where "m w = (Inr (a, b, c, d, e), w1)" and "f a b c d e w1 = (Inr r, w')"
  using bind_cases [OF assms] by auto

lemma training_Inr:
  assumes "training L d w = (Inr (mo, outs), w')"
  shows "\<exists>w1 w2. dariah_core_LDA L 10 1000 ''mallet-2.0.8/bin/mallet'' w = (Inr mo, w1)
    \<and> model_fit L mo d w1 = (Inr (), w2)"
  using assms unfolding training_def cell_8_def cell_9_def
  by - ((erule bind_prod5_Inr bind_prod_Inr bind_Inr)+, (clarsimp dest!: return_Inr)?, blast?)

lemma visualizing_Inr:
  assumes "visualizing L mo w = (Inr (v, outs), w')"
  shows "\<exists>w1. dariah_core_Vis L mo w = (Inr v, w1)"
  using assms unfolding visualizing_def cell_11_def
  by - ((erule bind_prod5_Inr bind_prod_Inr bind_Inr)+, (clarsimp dest!: return_Inr)?, blast?)

lemma run_Inr:
  assumes "run L w = (Inr ns, w')"
  shows "\<exists>outs1 w1 outs2 w2 outs3.
      preprocessing L w = (Inr (var_corpus ns, var_mfw ns, var_features ns, var_dtm ns, outs1), w1)
    \<and> training L (var_dtm ns) w1 = (Inr (var_model ns, outs2), w2)
    \<and> visualizing L (var_model ns) w2 = (Inr (var_vis ns, outs3), w')
    \<and> outputs ns = outs1 @ outs2 @ outs3"
  using assms unfolding run_def
  by - ((erule bind_prod5_Inr bind_prod_Inr bind_Inr)+, (clarsimp dest!: return_Inr)?, blast?)

lemma run_data_flow:
  assumes "run L w = (Inr ns, w')"
  shows "\<exists>h wa wb wc wd we wf wg wh out.
      corpus_hapax L (var_corpus ns) wa = (Inr h, wb) \<and> var_features ns = var_mfw ns @ h
    \<and> cell_7 L (var_corpus ns) (var_features ns) wc = (Inr (var_dtm ns, out), wd)
    \<and> model_fit L (var_model ns) (var_dtm ns) we = (Inr (), wf)
    \<and> dariah_core_Vis L (var_model ns) wg = (Inr (var_vis ns), wh)"
proof -
  from run_Inr [OF assms] obtain outs1 w1 outs2 w2 outs3 where
    p: "preprocessing L w = (Inr (var_corpus ns, var_mfw ns, var_features ns, var_dtm ns, outs1), w1)"
    and t: "training L (var_dtm ns) w1 = (Inr (var_model ns, outs2), w2)"
    and v: "visualizing L (var_model ns) w2 = (Inr (var_vis ns, outs3), w')"
    by blast
  from preprocessing_Inr [OF p] obtain w5 w6 out6 out7 where
    c6: "cell_6 L (var_corpus ns) (var_mfw ns) w5 = (Inr (var_features ns, out6), w6)"
    and c7: "cell_7 L (var_corpus ns) (var_features ns) w6 = (Inr (var_dtm ns, out7), w1)"
    by blast
  from cell_6_Inr [OF c6] obtain h where "corpus_hapax L (var_corpus ns) w5 = (Inr h, w6)"
    and "var_features ns = var_mfw ns @ h" by blast
  moreover from training_Inr [OF t] obtain wa wb where
    "model_fit L (var_model ns) (var_dtm ns) wa = (Inr (), wb)" by blast
  moreover from visualizing_Inr [OF v] obtain wc where
    "dariah_core_Vis L (var_model ns) w2 = (Inr (var_vis ns), wc)" by blast
  ultimately show ?thesis using c7 by blast
qed

lemma sample_preprocessing:
  "preprocessing (sample_library sample_fs) [] =
     (Inr (sample_dtm, [''the'', ''sea'', ''whale''], [''the'', ''sea'', ''whale'', ''whale''],
           \<lparr>frame_index = [''doc_a'', ''doc_b''], frame_columns = [], frame_dtype = Dtype_int\<rparr>,
           [Out_list [''the'', ''sea'', ''whale''], Out_list [''whale''],
            Out_stdout (''4 types will be removed from the corpus.'' @ [CHR 0x0A]),
            Out_frame \<lparr>frame_index = [''doc_a'', ''doc_b''], frame_columns = [], frame_dtype = Dtype_int\<rparr>]),
      [])"
  by code_simp

lemma sample_cell_7:
  "cell_7 (sample_library sample_fs) sample_dtm [''the''] [] =
     (Inr (sample_filtered, Out_frame sample_filtered), [])"
  by code_simp

lemma sample_traced_run:
  "run (traced (sample_library sample_fs)) ([], []) =
     (Inr sample_namespace, ([''mallet-2.0.8/bin/mallet''], sample_trace))"
  by code_simp

lemma wide_preprocessing:
  "preprocessing (sample_library wide_fs) [] =
     (Inr (wide_dtm, wide_words, wide_words @ [''w10'', ''w11'', ''w12''], wide_filtered,
           [Out_list (take 10 wide_words), Out_list [''w10'', ''w11'', ''w12''],
            Out_stdout (''15 types will be removed from the corpus.'' @ [CHR 0x0A]),
            Out_frame wide_filtered]),
      [])"
  by code_simp

subsection \<open>The modelled matrix operations\<close>

lemma cells_fillna: "None \<notin> set (cells (fillna_model d v))"
  by (auto simp: cells_def fillna_model_def split: option.splits)

lemma cell_7_modelled:
  "cell_7 (with_modelled_frames L) c fs w =
     (Inr (filtered c fs, Out_frame (iloc_columns_model (filtered c fs) 5)), w)"
  using cells_fillna [of "drop_model c fs" 0]
  by (simp add: cell_7_def with_modelled_frames_def bind_def return_def astype_model_def filtered_def)

lemma column_labels_filtered:
  "column_labels (filtered c fs) = filter (\<lambda>word. word \<notin> set fs) (column_labels c)"
  by (simp add: filtered_def fillna_model_def drop_model_def column_labels_def comp_def
      filter_map case_prod_unfold)

lemma no_column_no_counts:
  "word \<notin> fst ` set cols \<Longrightarrow>
     concat (map (\<lambda>(label, xs). if label = word then map count_of xs else []) cols) = []"
  by (induction cols) auto

lemma occurrences_absent:
  assumes "word \<notin> set (column_labels d)"
  shows "occurrences d word = 0"
proof -
  from assms have "word \<notin> fst ` set (frame_columns d)" by (simp add: column_labels_def)
  then have e: "concat (map (\<lambda>(label, xs). if label = word then map count_of xs else []) (frame_columns d)) = []"
    by (rule no_column_no_counts)
  show ?thesis unfolding occurrences_def e by simp
qed

section \<open>The claims\<close>

subsection \<open>C1: one flow, in one order\<close>

text \<open>
  C1. The code cells, executed in order, perform exactly one demonstration flow: the corpus
  is loaded (\<^verbatim>\<open>cophi.corpus\<close>) before the filter list is built (\<^verbatim>\<open>mfw\<close>, \<^verbatim>\<open>hapax\<close>), the filter
  list before the document-term matrix is built by dropping those features, the matrix
  before the model is fitted (\<^verbatim>\<open>model.fit\<close>), and the model before any visualization
  (\<^verbatim>\<open>Vis\<close>, \<^verbatim>\<open>topic_document\<close>).

  On every library and from every world, the calls of a run are an initial part of the
  script \<open>stage_events\<close>, so the five stages are entered in this order and none is entered
  twice; a run that returns has made all the calls of the script, each stage once. In such a
  run the data goes the same way: \<^verbatim>\<open>features\<close> is \<^verbatim>\<open>mfw\<close> followed by what \<^verbatim>\<open>corpus.hapax\<close>
  returned, \<^verbatim>\<open>dtm\<close> is what cell 7 made of the corpus and these features, \<^verbatim>\<open>model.fit\<close> was
  called on the model and this \<^verbatim>\<open>dtm\<close>, and \<^verbatim>\<open>dariah.core.Vis\<close> on this model.
\<close>

theorem flow_in_order:
  assumes "run (logged L) (w, []) = (r, (w', lg))"
  shows "prefix (map fst lg) stage_events
    \<and> prefix (flow (map fst lg)) [Load_corpus, Filter_vocabulary, Build_matrix, Fit_model, Visualize]
    \<and> (\<forall>ns. r = Inr ns \<longrightarrow> map fst lg = stage_events
          \<and> flow (map fst lg) = [Load_corpus, Filter_vocabulary, Build_matrix, Fit_model, Visualize]
          \<and> (\<exists>h wa wb wc wd we wf wg wh out.
                corpus_hapax L (var_corpus ns) wa = (Inr h, wb) \<and> var_features ns = var_mfw ns @ h
              \<and> cell_7 L (var_corpus ns) (var_features ns) wc = (Inr (var_dtm ns, out), wd)
              \<and> model_fit L (var_model ns) (var_dtm ns) we = (Inr (), wf)
              \<and> dariah_core_Vis L (var_model ns) wg = (Inr (var_vis ns), wh)))"
proof (intro conjI allI impI)
  have e: "entries_of r stage_events lg" using assms by (rule run_logged)
  then show p: "prefix (map fst lg) stage_events" by (rule entries_of_prefix)
  from prefix_flow [OF p] show "prefix (flow (map fst lg))
      [Load_corpus, Filter_vocabulary, Build_matrix, Fit_model, Visualize]"
    unfolding flow_stage_events .
  fix ns assume r: "r = Inr ns"
  with e show all: "map fst lg = stage_events" by (simp only: entries_of_Inr)
  show "flow (map fst lg) = [Load_corpus, Filter_vocabulary, Build_matrix, Fit_model, Visualize]"
    unfolding all by (rule flow_stage_events)
  have "run L w = (Inr ns, w')" using run_logged(1) [OF assms] r by simp
  then show "\<exists>h wa wb wc wd we wf wg wh out.
                corpus_hapax L (var_corpus ns) wa = (Inr h, wb) \<and> var_features ns = var_mfw ns @ h
              \<and> cell_7 L (var_corpus ns) (var_features ns) wc = (Inr (var_dtm ns, out), wd)
              \<and> model_fit L (var_model ns) (var_dtm ns) we = (Inr (), wf)
              \<and> dariah_core_Vis L (var_model ns) wg = (Inr (var_vis ns), wh)"
    by (rule run_data_flow)
qed

text \<open>The run on the sample library returns, and its log is the whole script.\<close>

theorem flow_in_order_witness:
  "run (logged (sample_library sample_fs)) ([], []) =
     (Inr sample_namespace, ([''mallet-2.0.8/bin/mallet''], ok stage_events))
   \<and> map fst (ok stage_events :: exn log) = stage_events
   \<and> flow (map fst (ok stage_events :: exn log)) =
       [Load_corpus, Filter_vocabulary, Build_matrix, Fit_model, Visualize]"
proof -
  note h = sample_run
  from flow_in_order [OF h] have "\<forall>ns. Inr sample_namespace = (Inr ns :: exn + _) \<longrightarrow>
      map fst (ok stage_events :: exn log) = stage_events
    \<and> flow (map fst (ok stage_events :: exn log)) =
       [Load_corpus, Filter_vocabulary, Build_matrix, Fit_model, Visualize]"
    by blast
  then have "map fst (ok stage_events :: exn log) = stage_events
    \<and> flow (map fst (ok stage_events :: exn log)) =
       [Load_corpus, Filter_vocabulary, Build_matrix, Fit_model, Visualize]"
    by (elim allE [of _ sample_namespace] impE) (rule refl)
  with h show ?thesis by (rule conjI)
qed

subsection \<open>C2: configuration values reach the library as written\<close>

text \<open>
  C2. Every configuration value in the notebook (the stopword count 50, the number of
  topics 10, the number of iterations 1000, the path of the mallet executable) is passed
  to exactly one library call (\<^verbatim>\<open>corpus.mfw\<close> or \<^verbatim>\<open>dariah.core.LDA\<close>) unchanged.

  In every run the calls that take configuration are an initial part of
  \<^verbatim>\<open>mfw(50)\<close>, \<^verbatim>\<open>LDA(10, 1000, "mallet-2.0.8/bin/mallet")\<close>, and they are exactly these two in
  a run that returns: the library receives the literals of the source, each once.
\<close>

theorem configuration_verbatim:
  assumes "run (logged L) (w, []) = (r, (w', lg))"
  shows "prefix (filter takes_configuration (map fst lg))
           [Ev_mfw 50, Ev_LDA 10 1000 ''mallet-2.0.8/bin/mallet'']
    \<and> (\<forall>ns. r = Inr ns \<longrightarrow> filter takes_configuration (map fst lg) =
           [Ev_mfw 50, Ev_LDA 10 1000 ''mallet-2.0.8/bin/mallet''])"
proof (intro conjI allI impI)
  have e: "entries_of r stage_events lg" using assms by (rule run_logged)
  then have "prefix (map fst lg) stage_events" by (rule entries_of_prefix)
  then have "prefix (filter takes_configuration (map fst lg)) (filter takes_configuration stage_events)"
    by (rule filter_mono_prefix)
  then show "prefix (filter takes_configuration (map fst lg))
      [Ev_mfw 50, Ev_LDA 10 1000 ''mallet-2.0.8/bin/mallet'']"
    unfolding configuration_stage_events .
  fix ns assume "r = Inr ns"
  with e have all: "map fst lg = stage_events" by (simp only: entries_of_Inr)
  show "filter takes_configuration (map fst lg) =
           [Ev_mfw 50, Ev_LDA 10 1000 ''mallet-2.0.8/bin/mallet'']"
    unfolding all by (rule configuration_stage_events)
qed

theorem configuration_verbatim_witness:
  "run (logged (sample_library sample_fs)) ([], []) =
     (Inr sample_namespace, ([''mallet-2.0.8/bin/mallet''], ok stage_events))
   \<and> filter takes_configuration (map fst (ok stage_events :: exn log)) =
       [Ev_mfw 50, Ev_LDA 10 1000 ''mallet-2.0.8/bin/mallet'']"
proof -
  note h = sample_run
  from configuration_verbatim [OF h] have "filter takes_configuration (map fst (ok stage_events :: exn log)) =
       [Ev_mfw 50, Ev_LDA 10 1000 ''mallet-2.0.8/bin/mallet'']"
    by (elim conjE allE [of _ sample_namespace] impE) (rule refl)
  with h show ?thesis by (rule conjI)
qed

subsection \<open>C3: exceptions of the library end the run as they are\<close>

text \<open>
  C3. When a library call raises an exception, the notebook propagates it unchanged: no
  cell has a \<^verbatim>\<open>try\<close>, a fallback value or any other handler, so execution stops with the
  library's own error.

  A call that raises \<open>e\<close> is the last call of the run, and \<open>e\<close> is the outcome of the run.
  Conversely, if the run ends with the exception \<open>e\<close>, then \<open>e\<close> is what the last call made
  has raised, and no call before it has raised; if the run returns, no call has raised.
  The wrapped run and the run on the library itself have the same outcome and leave the
  same world.
\<close>

theorem exceptions_propagate:
  assumes "run (logged L) (w, []) = (r, (w', lg))"
  shows "run L w = (r, w')
    \<and> (\<forall>ev e. (ev, Some e) \<in> set lg \<longrightarrow> r = Inl e \<and> last lg = (ev, Some e))
    \<and> (case r of
          Inl e \<Rightarrow> lg \<noteq> [] \<and> snd (last lg) = Some e \<and> (\<forall>x \<in> set (butlast lg). snd x = None)
        | Inr ns \<Rightarrow> (\<forall>x \<in> set lg. snd x = None))"
proof -
  have e: "entries_of r stage_events lg" using assms by (rule run_logged)
  have a: "run L w = (r, w')" using assms by (rule run_logged)
  have c: "case r of
          Inl e \<Rightarrow> lg \<noteq> [] \<and> snd (last lg) = Some e \<and> (\<forall>x \<in> set (butlast lg). snd x = None)
        | Inr ns \<Rightarrow> (\<forall>x \<in> set lg. snd x = None)"
  proof (cases r)
    case (Inl ex)
    with e obtain k where "lg = ok (take k stage_events) @ [(stage_events ! k, Some ex)]"
      by (auto simp: entries_of_def)
    then show ?thesis using Inl by (auto simp: ok_def)
  next
    case (Inr ns)
    with e have "lg = ok stage_events" by (simp add: entries_of_def)
    then show ?thesis using Inr by (auto simp: ok_def)
  qed
  have b: "\<forall>ev ex. (ev, Some ex) \<in> set lg \<longrightarrow> r = Inl ex \<and> last lg = (ev, Some ex)"
  proof (intro allI impI)
    fix ev ex assume mem: "(ev, Some ex) \<in> set lg"
    show "r = Inl ex \<and> last lg = (ev, Some ex)"
    proof (cases r)
      case (Inl ex')
      with e obtain k where lg: "lg = ok (take k stage_events) @ [(stage_events ! k, Some ex')]"
        by (auto simp: entries_of_def)
      from mem lg have "(ev, Some ex) = (stage_events ! k, Some ex')"
        by (auto simp: ok_def)
      with lg Inl show ?thesis by simp
    next
      case (Inr ns)
      with e have "lg = ok stage_events" by (simp add: entries_of_def)
      with mem show ?thesis by (auto simp: ok_def)
    qed
  qed
  from a b c show ?thesis by (intro conjI)
qed

text \<open>With no corpus directory, \<^verbatim>\<open>cophi.corpus\<close> raises, and this is how the run ends.\<close>

theorem exceptions_propagate_witness:
  "run (logged (sample_library (\<lambda>_. None))) ([], []) =
     (Inl FileNotFoundError,
      ([], ok (take 3 stage_events) @ [(stage_events ! 3, Some FileNotFoundError)]))
   \<and> run (sample_library (\<lambda>_. None)) [] = (Inl FileNotFoundError, [])
   \<and> snd (last (ok (take 3 stage_events) @ [(stage_events ! 3, Some FileNotFoundError)]))
       = Some FileNotFoundError"
proof -
  note h = sample_run_missing_corpus
  from exceptions_propagate [OF h]
  have "run (sample_library (\<lambda>_. None)) [] = (Inl FileNotFoundError, [])"
    and "case (Inl FileNotFoundError :: exn + (dataframe, dataframe, int \<times> int \<times> string, int \<times> int \<times> string, unit) namespace) of
          Inl e \<Rightarrow> ok (take 3 stage_events) @ [(stage_events ! 3, Some FileNotFoundError)] \<noteq> []
            \<and> snd (last (ok (take 3 stage_events) @ [(stage_events ! 3, Some FileNotFoundError)])) = Some e
            \<and> (\<forall>x \<in> set (butlast (ok (take 3 stage_events) @ [(stage_events ! 3, Some FileNotFoundError)])). snd x = None)
        | Inr ns \<Rightarrow> (\<forall>x \<in> set (ok (take 3 stage_events) @ [(stage_events ! 3, Some FileNotFoundError)]). snd x = None)"
    by blast+
  then have "run (sample_library (\<lambda>_. None)) [] = (Inl FileNotFoundError, [])
    \<and> snd (last (ok (take 3 stage_events) @ [(stage_events ! 3, Some FileNotFoundError)]))
       = Some FileNotFoundError"
    by (simp only: sum.case)
  with h show ?thesis by (rule conjI)
qed

subsection \<open>C4: no hapax legomenon keeps its column\<close>

text \<open>
  C4. Every hapax legomenon of the corpus (every word occurring exactly once) is in the
  feature list used for filtering, so the document-term matrix the drop step produces has
  no column for a word that occurs exactly once in the corpus.

  The first half is the notebook's own code, \<^verbatim>\<open>features = mfw + corpus.hapax\<close>; the second
  half rests on what \<^verbatim>\<open>hapax\<close> and \<^verbatim>\<open>drop\<close> do, which is modelled. With the modelled
  operations, for every corpus \<open>c\<close> and whatever the rest of the library does: when the
  preprocessing returns, the feature list holds every hapax legomenon of \<open>c\<close>, and a word
  with exactly one occurrence in \<open>c\<close> labels no column of \<^verbatim>\<open>dtm\<close>.
\<close>

theorem hapax_dropped:
  assumes "preprocessing (with_modelled_frames L) w = (Inr (c, m, fs, d, outs), w')"
  shows "set (hapax_model c) \<subseteq> set fs
    \<and> (\<forall>word. occurrences c word = 1 \<longrightarrow> word \<in> set fs \<and> word \<notin> set (column_labels d))"
proof -
  let ?L = "with_modelled_frames L"
  from preprocessing_Inr [OF assms] obtain w5 w6 out6 out7 where
    c6: "cell_6 ?L c m w5 = (Inr (fs, out6), w6)" and c7: "cell_7 ?L c fs w6 = (Inr (d, out7), w')"
    by blast
  from cell_6_Inr [OF c6] obtain h where h: "corpus_hapax ?L c w5 = (Inr h, w6)" and fs: "fs = m @ h"
    by blast
  from h have "h = hapax_model c" by (simp add: with_modelled_frames_def return_def)
  with fs have sub: "set (hapax_model c) \<subseteq> set fs" by simp
  from c7 have d: "d = filtered c fs" by (simp add: cell_7_modelled)
  have "word \<in> set fs \<and> word \<notin> set (column_labels d)" if once: "occurrences c word = 1" for word
  proof -
    have "word \<in> set (column_labels c)"
      using once occurrences_absent [of word c] by auto
    with once have "word \<in> set (hapax_model c)" by (simp add: hapax_model_def)
    with sub have "word \<in> set fs" by blast
    then show ?thesis by (simp add: d column_labels_filtered)
  qed
  with sub show ?thesis by blast
qed

text \<open>In the sample corpus ``whale'' occurs once; it is a feature, and its column is gone.\<close>

theorem hapax_dropped_witness:
  "preprocessing (sample_library sample_fs) [] =
     (Inr (sample_dtm, [''the'', ''sea'', ''whale''], [''the'', ''sea'', ''whale'', ''whale''],
           \<lparr>frame_index = [''doc_a'', ''doc_b''], frame_columns = [], frame_dtype = Dtype_int\<rparr>,
           [Out_list [''the'', ''sea'', ''whale''], Out_list [''whale''],
            Out_stdout (''4 types will be removed from the corpus.'' @ [CHR 0x0A]),
            Out_frame \<lparr>frame_index = [''doc_a'', ''doc_b''], frame_columns = [], frame_dtype = Dtype_int\<rparr>]),
      [])
   \<and> occurrences sample_dtm ''whale'' = 1
   \<and> ''whale'' \<in> set [''the'', ''sea'', ''whale'', ''whale'']
   \<and> ''whale'' \<notin> set (column_labels
         \<lparr>frame_index = [''doc_a'', ''doc_b''], frame_columns = [], frame_dtype = Dtype_int\<rparr>)"
proof -
  note h = sample_preprocessing
  have once: "occurrences sample_dtm ''whale'' = 1" by code_simp
  from hapax_dropped [OF h [unfolded sample_library_def]] once
  have "''whale'' \<in> set [''the'', ''sea'', ''whale'', ''whale'']
    \<and> ''whale'' \<notin> set (column_labels
         \<lparr>frame_index = [''doc_a'', ''doc_b''], frame_columns = [], frame_dtype = Dtype_int\<rparr>)"
    by blast
  with h once show ?thesis by (intro conjI) simp_all
qed

subsection \<open>C5: the two resources the notebook names\<close>

text \<open>
  C5. The only external resources the notebook itself designates are one path to a corpus
  directory, handed to \<^verbatim>\<open>cophi.corpus\<close>, and one path string to the mallet executable,
  handed to \<^verbatim>\<open>dariah.core.LDA\<close>; the notebook's own code opens, reads or writes no other
  file, URL or environment variable.

  In every run the resources named in the calls are an initial part of the directory
  \<^verbatim>\<open>Path("data", "british-fiction-corpus")\<close> followed by the executable
  \<^verbatim>\<open>"mallet-2.0.8/bin/mallet"\<close>, and exactly these two in a run that returns. Whatever the
  notebook does to the world it does through the library: a property of the world that
  every operation of the library preserves holds after the run if it held before.
\<close>

theorem designated_resources:
  assumes "run (logged L) (w, []) = (r, (w', lg))"
  shows "prefix (concat (map resources (map fst lg)))
           [Directory directory, Executable ''mallet-2.0.8/bin/mallet'']
    \<and> (\<forall>ns. r = Inr ns \<longrightarrow> concat (map resources (map fst lg)) =
           [Directory directory, Executable ''mallet-2.0.8/bin/mallet''])
    \<and> (\<forall>I. outside_dariah_preserves L I \<and> dariah_preserves L I \<and> I w \<longrightarrow> I w')"
proof (intro conjI allI impI)
  have e: "entries_of r stage_events lg" using assms by (rule run_logged)
  then have "prefix (map fst lg) stage_events" by (rule entries_of_prefix)
  then have "prefix (concat (map resources (map fst lg))) (concat (map resources stage_events))"
    by (rule prefix_concat_map)
  then show "prefix (concat (map resources (map fst lg)))
      [Directory directory, Executable ''mallet-2.0.8/bin/mallet'']"
    unfolding resources_stage_events .
  {
    fix ns assume "r = Inr ns"
    with e have all: "map fst lg = stage_events" by (simp only: entries_of_Inr)
    show "concat (map resources (map fst lg)) =
        [Directory directory, Executable ''mallet-2.0.8/bin/mallet'']"
      unfolding all by (rule resources_stage_events)
  }
  fix I assume I: "outside_dariah_preserves L I \<and> dariah_preserves L I \<and> I w"
  then have "preserves I (run L)" by (intro preserves_run) simp_all
  with I have "I (snd (run L w))" by (simp add: preserves_def)
  moreover have "run L w = (r, w')" using assms by (rule run_logged)
  ultimately show "I w'" by simp
qed

text \<open>
  On the sample library: both resources are named, and no executable without a name has
  been started, a property every operation of the sample library preserves.
\<close>

theorem designated_resources_witness:
  "run (logged (sample_library sample_fs)) ([], []) =
     (Inr sample_namespace, ([''mallet-2.0.8/bin/mallet''], ok stage_events))
   \<and> concat (map resources (map fst (ok stage_events :: exn log))) =
       [Directory directory, Executable ''mallet-2.0.8/bin/mallet'']
   \<and> [] \<notin> set [''mallet-2.0.8/bin/mallet'']"
proof -
  note h = sample_run
  note t = designated_resources [OF h]
  from t have a: "concat (map resources (map fst (ok stage_events :: exn log))) =
       [Directory directory, Executable ''mallet-2.0.8/bin/mallet'']"
    by (elim conjE allE [of _ sample_namespace] impE) (rule refl)
  from t have "outside_dariah_preserves (sample_library sample_fs) (\<lambda>w. [] \<notin> set w)
      \<and> dariah_preserves (sample_library sample_fs) (\<lambda>w. [] \<notin> set w) \<and> [] \<notin> set ([] :: string list)
      \<longrightarrow> [] \<notin> set [''mallet-2.0.8/bin/mallet'']"
    by blast
  then have b: "[] \<notin> set [''mallet-2.0.8/bin/mallet'']"
    using sample_library_no_nameless_executable [of sample_fs] by simp
  from h a b show ?thesis by (intro conjI)
qed

subsection \<open>C6: processes are started inside dariah only\<close>

text \<open>
  C6. The notebook's own code never spawns a process: the only interaction with an
  external process happens inside \<^verbatim>\<open>dariah\<close>, after the notebook has passed it the mallet
  path string; no cell calls a process primitive itself.

  On every library the worlds of a run form a chain without a gap from the world the run
  started in to the world it left: each step of the chain is a call of the library, of the
  kind and with the literal arguments the script says, and between two calls, before the
  first and after the last, the world stays as it is. So whatever happens to the world
  happens inside a call. Let then \<open>procs\<close> be anything one can observe of the world (the
  processes started, say) that no operation outside \<^verbatim>\<open>dariah\<close> ever changes. Then every
  step of the run that changes it is a call into \<^verbatim>\<open>dariah\<close>; if the run has changed it at
  all, such a step is in the run; and every call into \<^verbatim>\<open>dariah\<close> comes after, or is, the call
  \<^verbatim>\<open>dariah.core.LDA(..., mallet="mallet-2.0.8/bin/mallet")\<close> that hands over the path.
\<close>

theorem processes_started_inside_dariah:
  assumes keep: "outside_dariah_keeps L procs"
    and run: "run (traced L) (w, []) = (r, (w', tr))"
  shows "run L w = (r, w')
    \<and> linked w tr w'
    \<and> list_all (genuine L) tr
    \<and> prefix (map fst tr) stage_events
    \<and> (\<forall>x \<in> set tr. procs (snd (snd x)) \<noteq> procs (fst (snd x)) \<longrightarrow> is_dariah (fst x))
    \<and> (procs w' \<noteq> procs w \<longrightarrow>
          (\<exists>x \<in> set tr. is_dariah (fst x) \<and> procs (snd (snd x)) \<noteq> procs (fst (snd x))))
    \<and> (\<forall>i < length tr. is_dariah (fst (tr ! i)) \<longrightarrow>
          (\<exists>j \<le> i. fst (tr ! j) = Ev_LDA 10 1000 ''mallet-2.0.8/bin/mallet''))"
proof -
  note t = run_traced [OF run]
  have changes: "\<forall>x \<in> set tr. procs (snd (snd x)) \<noteq> procs (fst (snd x)) \<longrightarrow> is_dariah (fst x)"
  proof (intro ballI impI)
    fix x assume x: "x \<in> set tr" and ne: "procs (snd (snd x)) \<noteq> procs (fst (snd x))"
    obtain ev b a where xe: "x = (ev, b, a)" by (cases x)
    from t(3) x xe have "genuine L (ev, b, a)" by (simp add: list_all_iff)
    with keep ne xe show "is_dariah (fst x)" using genuine_keeps [of L procs ev b a] by auto
  qed
  have final: "procs w' \<noteq> procs w \<longrightarrow>
      (\<exists>x \<in> set tr. is_dariah (fst x) \<and> procs (snd (snd x)) \<noteq> procs (fst (snd x)))"
  proof
    assume ne: "procs w' \<noteq> procs w"
    have "\<not> (\<forall>x \<in> set tr. procs (snd (snd x)) = procs (fst (snd x)))"
      using linked_keeps [OF t(2), of procs] ne by blast
    then obtain x where "x \<in> set tr" and "procs (snd (snd x)) \<noteq> procs (fst (snd x))" by blast
    with changes show "\<exists>x \<in> set tr. is_dariah (fst x) \<and> procs (snd (snd x)) \<noteq> procs (fst (snd x))"
      by blast
  qed
  have after: "\<forall>i < length tr. is_dariah (fst (tr ! i)) \<longrightarrow>
      (\<exists>j \<le> i. fst (tr ! j) = Ev_LDA 10 1000 ''mallet-2.0.8/bin/mallet'')"
  proof (intro allI impI)
    fix i assume i: "i < length tr" and d: "is_dariah (fst (tr ! i))"
    from i d have "is_dariah (map fst tr ! i)" by simp
    with dariah_after_LDA [OF t(4), of i] i
    obtain j where j: "j \<le> i" and "map fst tr ! j = Ev_LDA 10 1000 ''mallet-2.0.8/bin/mallet''"
      by auto
    with i have "fst (tr ! j) = Ev_LDA 10 1000 ''mallet-2.0.8/bin/mallet''" by simp
    with j show "\<exists>j \<le> i. fst (tr ! j) = Ev_LDA 10 1000 ''mallet-2.0.8/bin/mallet''" by blast
  qed
  from t(1) t(2) t(3) t(4) changes final after show ?thesis by (intro conjI)
qed

text \<open>
  On the sample library the observation is the world itself, the list of the executables
  started: the chain of the run leads from no executable to mallet, and the one step that
  changes the world is \<^verbatim>\<open>model.fit\<close>, a call into \<^verbatim>\<open>dariah\<close>.
\<close>

theorem processes_started_inside_dariah_witness:
  "run (traced (sample_library sample_fs)) ([], []) =
     (Inr sample_namespace, ([''mallet-2.0.8/bin/mallet''], sample_trace))
   \<and> linked [] sample_trace [''mallet-2.0.8/bin/mallet'']
   \<and> filter (\<lambda>x. snd (snd x) \<noteq> fst (snd x)) sample_trace
       = [(Ev_fit, [], [''mallet-2.0.8/bin/mallet''])]
   \<and> is_dariah Ev_fit"
proof -
  note h = sample_traced_run
  note t = processes_started_inside_dariah [OF sample_library_outside_dariah_keeps h]
  from t have l: "linked [] sample_trace [''mallet-2.0.8/bin/mallet'']" by (elim conjE)
  have f: "filter (\<lambda>x. snd (snd x) \<noteq> fst (snd x)) sample_trace
       = [(Ev_fit, [], [''mallet-2.0.8/bin/mallet''])]"
    by code_simp
  have "(Ev_fit, [], [''mallet-2.0.8/bin/mallet''])
      \<in> set (filter (\<lambda>x. snd (snd x) \<noteq> fst (snd x)) sample_trace)"
    unfolding f by simp
  then have "(Ev_fit, [], [''mallet-2.0.8/bin/mallet'']) \<in> set sample_trace"
    by simp
  with t have d: "is_dariah Ev_fit" by fastforce
  from h l f d show ?thesis by (intro conjI)
qed

subsection \<open>C8: the matrix given to the model holds integers, none missing\<close>

text \<open>
  C8. After the filtering cell the document-term matrix passed to \<^verbatim>\<open>model.fit\<close> has no
  missing value and integer type: for a matrix whose cells are non-negative counts or
  missing, every cell of \<^verbatim>\<open>corpus.drop(corpus.dtm, features).fillna(0).astype(int)\<close> is a
  non-negative integer.

  With the modelled operations cell 7 returns (the conversion does not raise, no cell being
  missing after \<^verbatim>\<open>fillna(0)\<close>), and the matrix it binds to \<^verbatim>\<open>dtm\<close> has integer type and in
  every cell a count that is not negative.
\<close>

theorem filtered_matrix_integer:
  assumes "\<forall>x \<in> set (cells c). x = None \<or> (\<exists>n. x = Some n \<and> 0 \<le> n)"
  shows "\<exists>d shown. cell_7 (with_modelled_frames L) c fs w = (Inr (d, shown), w)
     \<and> frame_dtype d = Dtype_int
     \<and> (\<forall>x \<in> set (cells d). \<exists>n. x = Some n \<and> 0 \<le> n)"
proof -
  have "frame_dtype (filtered c fs) = Dtype_int" by (simp add: filtered_def)
  moreover have "\<forall>x \<in> set (cells (filtered c fs)). \<exists>n. x = Some n \<and> 0 \<le> n"
  proof
    fix x assume "x \<in> set (cells (filtered c fs))"
    then obtain label xs y where col: "(label, xs) \<in> set (frame_columns c)" and y: "y \<in> set xs"
      and x: "x = (case y of None \<Rightarrow> Some 0 | Some n \<Rightarrow> Some n)"
      by (auto simp: cells_def filtered_def fillna_model_def drop_model_def)
    from col y have "y \<in> set (cells c)" by (force simp: cells_def)
    with assms have "y = None \<or> (\<exists>n. y = Some n \<and> 0 \<le> n)" by blast
    with x show "\<exists>n. x = Some n \<and> 0 \<le> n" by auto
  qed
  ultimately show ?thesis using cell_7_modelled [of L c fs w] by blast
qed

text \<open>On the sample corpus, dropping ``the'': the two missing cells have become 0.\<close>

theorem filtered_matrix_integer_witness:
  "cells sample_dtm = [Some 3, Some 2, Some 1, None, None, Some 2]
   \<and> cell_7 (sample_library sample_fs) sample_dtm [''the''] [] =
       (Inr (sample_filtered, Out_frame sample_filtered), [])
   \<and> frame_dtype sample_filtered = Dtype_int
   \<and> cells sample_filtered = [Some 1, Some 0, Some 0, Some 2]"
proof -
  have c: "cells sample_dtm = [Some 3, Some 2, Some 1, None, None, Some 2]"
    by (simp add: cells_def sample_dtm_def)
  then have h: "\<forall>x \<in> set (cells sample_dtm). x = None \<or> (\<exists>n. x = Some n \<and> 0 \<le> n)"
    by simp
  note e = sample_cell_7
  from filtered_matrix_integer [OF h, of _ "[''the'']" "[]"] obtain d shown where
    "cell_7 (sample_library sample_fs) sample_dtm [''the''] [] = (Inr (d, shown), [])"
    and d: "frame_dtype d = Dtype_int"
    unfolding sample_library_def by blast
  with e have "d = sample_filtered" by simp
  with d have t: "frame_dtype sample_filtered = Dtype_int" by simp
  have f: "cells sample_filtered = [Some 1, Some 0, Some 0, Some 2]"
    by (simp add: cells_def sample_filtered_def)
  from c e t f show ?thesis by (intro conjI)
qed

subsection \<open>C9: the printed count is a sum of two lengths\<close>

text \<open>
  C9. The number printed as the count of types to be removed is \<^verbatim>\<open>len(mfw) + len(hapax)\<close>:
  the concatenation \<^verbatim>\<open>features = mfw + corpus.hapax\<close> is not deduplicated, so a word in both
  lists is counted twice and the number can exceed the number of distinct types dropped.

  On every library: when the preprocessing returns, \<^verbatim>\<open>features\<close> is the list \<open>m\<close> that
  \<^verbatim>\<open>corpus.mfw(50)\<close> returned followed by the list \<open>h\<close> that \<^verbatim>\<open>corpus.hapax\<close> returned, and the
  one line printed is a numeral followed by \<^verbatim>\<open> types will be removed from the corpus.\<close> and
  a newline. The numeral is made of decimal digits, it is not empty, it has no leading 0
  unless the number is 0, and read as a decimal numeral it is \<open>length m + length h\<close>. If \<open>m\<close>
  and \<open>h\<close> share a word, the distinct features are fewer than the number printed.
\<close>

theorem printed_count:
  assumes "preprocessing L w = (Inr (c, m, fs, d, outs), w')"
  shows "\<exists>h w1 w2 w3 w4 digits.
      corpus_mfw L c 50 w1 = (Inr m, w2) \<and> corpus_hapax L c w3 = (Inr h, w4) \<and> fs = m @ h
    \<and> Out_stdout (digits @ '' types will be removed from the corpus.'' @ [CHR 0x0A]) \<in> set outs
    \<and> (\<forall>t. Out_stdout t \<in> set outs \<longrightarrow>
          t = digits @ '' types will be removed from the corpus.'' @ [CHR 0x0A])
    \<and> digits = str_nat (length m + length h)
    \<and> list_all is_digit digits \<and> decimal_value digits = length m + length h
    \<and> digits \<noteq> [] \<and> (hd digits = CHR ''0'' \<longrightarrow> length m + length h = 0)
    \<and> (set m \<inter> set h \<noteq> {} \<longrightarrow> card (set fs) < length fs)"
proof -
  from preprocessing_Inr [OF assms] obtain w3 w4 w5 w6 out4 out5 out6 out7 where
    c4: "cell_4 L c w3 = (Inr (m, out4), w4)" and c5: "cell_5 L c w4 = (Inr out5, w5)"
    and c6: "cell_6 L c m w5 = (Inr (fs, out6), w6)" and c7: "cell_7 L c fs w6 = (Inr (d, out7), w')"
    and outs: "outs = [out4, out5, out6, out7]"
    by blast
  from cell_4_Inr [OF c4] have mfw: "corpus_mfw L c 50 w3 = (Inr m, w4)" and o4: "out4 = Out_list (take 10 m)"
    by simp_all
  from cell_5_Inr [OF c5] obtain h5 where o5: "out5 = Out_list (take 10 h5)" by blast
  from cell_6_Inr [OF c6] obtain h where h: "corpus_hapax L c w5 = (Inr h, w6)" and fs: "fs = m @ h"
    and o6: "out6 = Out_stdout (removal_message (m @ h))" by blast
  from cell_7_Inr [OF c7] obtain shown where o7: "out7 = Out_frame shown" by blast
  define digits where "digits = str_nat (length m + length h)"
  let ?msg = "digits @ '' types will be removed from the corpus.'' @ [CHR 0x0A]"
  have msg: "removal_message (m @ h) = ?msg" by (simp add: removal_message_def digits_def)
  have a: "Out_stdout ?msg \<in> set outs" using outs o6 msg by simp
  have b: "\<forall>t. Out_stdout t \<in> set outs \<longrightarrow> t = ?msg" using outs o4 o5 o6 o7 msg by auto
  have c: "set m \<inter> set h \<noteq> {} \<longrightarrow> card (set fs) < length fs"
  proof
    assume "set m \<inter> set h \<noteq> {}"
    then have "\<not> distinct fs" using fs by simp
    then have "card (set fs) \<noteq> length fs" using card_distinct by blast
    moreover have "card (set fs) \<le> length fs" by (rule card_length)
    ultimately show "card (set fs) < length fs" by simp
  qed
  from str_nat_decimal [of "length m + length h"]
  have dg: "list_all is_digit digits" "decimal_value digits = length m + length h" "digits \<noteq> []"
    "hd digits = CHR ''0'' \<longrightarrow> length m + length h = 0"
    unfolding digits_def by simp_all
  from mfw h fs a b c dg digits_def show ?thesis by blast
qed

text \<open>
  The corpus of twelve words: all of them are among the 50 most frequent, the three hapax
  legomena too, and ``15'' is printed for 12 types.
\<close>

theorem printed_count_witness:
  "preprocessing (sample_library wide_fs) [] =
     (Inr (wide_dtm, wide_words, wide_words @ [''w10'', ''w11'', ''w12''], wide_filtered,
           [Out_list (take 10 wide_words), Out_list [''w10'', ''w11'', ''w12''],
            Out_stdout (''15 types will be removed from the corpus.'' @ [CHR 0x0A]),
            Out_frame wide_filtered]),
      [])
   \<and> length wide_words + length [''w10'', ''w11'', ''w12''] = 15
   \<and> decimal_value ''15'' = 15
   \<and> set wide_words \<inter> set [''w10'', ''w11'', ''w12''] \<noteq> {}
   \<and> card (set (wide_words @ [''w10'', ''w11'', ''w12''])) < length (wide_words @ [''w10'', ''w11'', ''w12''])"
proof -
  note h = wide_preprocessing
  from printed_count [OF h] obtain hp digits where
    fs: "wide_words @ [''w10'', ''w11'', ''w12''] = wide_words @ hp"
    and dg: "digits = str_nat (length wide_words + length hp)"
    and dv: "decimal_value digits = length wide_words + length hp"
    and imp: "set wide_words \<inter> set hp \<noteq> {} \<longrightarrow>
      card (set (wide_words @ [''w10'', ''w11'', ''w12''])) < length (wide_words @ [''w10'', ''w11'', ''w12''])"
    by blast
  from fs have hp: "hp = [''w10'', ''w11'', ''w12'']" by simp
  have len: "length wide_words + length [''w10'', ''w11'', ''w12''] = 15"
    by (simp add: wide_words_def)
  have "str_nat 15 = ''15''" by (simp add: str_nat.simps digit_char_def)
  with dg dv hp len have val: "decimal_value ''15'' = 15" by simp
  have ne: "set wide_words \<inter> set [''w10'', ''w11'', ''w12''] \<noteq> {}"
    by (simp add: wide_words_def)
  with imp hp have lt: "card (set (wide_words @ [''w10'', ''w11'', ''w12'']))
      < length (wide_words @ [''w10'', ''w11'', ''w12''])"
    by blast
  from h len val ne lt show ?thesis by (intro conjI)
qed

subsection \<open>C10: filtering keeps the documents\<close>

text \<open>
  C10. Filtering the vocabulary changes only the columns of the document-term matrix: the
  rows of \<^verbatim>\<open>dtm\<close>, in set and order, are the rows of \<^verbatim>\<open>corpus.dtm\<close>; dropping features
  never removes or reorders a document.

  With the modelled operations, for every corpus and every feature list, cell 7 returns a
  matrix with the row labels of the corpus's matrix, in the same order, and each of its
  columns is a column of the corpus's matrix, cell by cell, with 0 for a missing cell.
\<close>

theorem documents_kept:
  "\<exists>d shown. cell_7 (with_modelled_frames L) c fs w = (Inr (d, shown), w)
     \<and> frame_index d = frame_index c
     \<and> (\<forall>col \<in> set (frame_columns d). \<exists>xs. (fst col, xs) \<in> set (frame_columns c)
           \<and> snd col = map (\<lambda>x. Some (count_of x)) xs)"
proof -
  have "frame_index (filtered c fs) = frame_index c"
    by (simp add: filtered_def fillna_model_def drop_model_def)
  moreover have "\<forall>col \<in> set (frame_columns (filtered c fs)). \<exists>xs. (fst col, xs) \<in> set (frame_columns c)
           \<and> snd col = map (\<lambda>x. Some (count_of x)) xs"
  proof
    fix col assume "col \<in> set (frame_columns (filtered c fs))"
    then obtain label xs where "(label, xs) \<in> set (frame_columns c)"
      and "col = (label, map (\<lambda>x. case x of None \<Rightarrow> Some 0 | Some n \<Rightarrow> Some n) xs)"
      by (auto simp: filtered_def fillna_model_def drop_model_def)
    moreover have "(\<lambda>x. case x of None \<Rightarrow> Some 0 | Some n \<Rightarrow> Some n) = (\<lambda>x. Some (count_of x))"
      by (auto simp: count_of_def fun_eq_iff split: option.splits)
    ultimately show "\<exists>xs. (fst col, xs) \<in> set (frame_columns c)
           \<and> snd col = map (\<lambda>x. Some (count_of x)) xs"
      by auto
  qed
  ultimately show ?thesis using cell_7_modelled [of L c fs w] by blast
qed

text \<open>On the sample corpus, dropping ``the'': both documents are there, in their order.\<close>

theorem documents_kept_witness:
  "cell_7 (sample_library sample_fs) sample_dtm [''the''] [] =
     (Inr (sample_filtered, Out_frame sample_filtered), [])
   \<and> frame_index sample_filtered = frame_index sample_dtm
   \<and> (\<exists>xs. (''whale'', xs) \<in> set (frame_columns sample_dtm)
         \<and> [Some 1, Some 0] = map (\<lambda>x. Some (count_of x)) xs)"
proof -
  note e = sample_cell_7
  from documents_kept [of _ sample_dtm "[''the'']" "[]"] obtain d shown where
    "cell_7 (sample_library sample_fs) sample_dtm [''the''] [] = (Inr (d, shown), [])"
    and i: "frame_index d = frame_index sample_dtm"
    and c: "\<forall>col \<in> set (frame_columns d). \<exists>xs. (fst col, xs) \<in> set (frame_columns sample_dtm)
           \<and> snd col = map (\<lambda>x. Some (count_of x)) xs"
    unfolding sample_library_def by blast
  with e have d: "d = sample_filtered" by simp
  have "(''whale'', [Some 1, Some 0]) \<in> set (frame_columns sample_filtered)"
    by (simp add: sample_filtered_def)
  with c d have "\<exists>xs. (''whale'', xs) \<in> set (frame_columns sample_dtm)
         \<and> [Some 1, Some 0] = map (\<lambda>x. Some (count_of x)) xs"
    by fastforce
  with e i d show ?thesis by simp
qed

end
